theory Spec2Isabelle
  imports Main "HOL-Library.Word"
begin

unbundle bit_operations_syntax

section \<open>Data model of \<open>internal/model/webauthn.go\<close>\<close>

type_synonym byte = "8 word"

text \<open>
  \<open>time.Time\<close> is opaque to this package: it is only stored and copied. It is modelled
  as a count of nanoseconds since the zero instant, so that the zero value
  \<open>time.Time{}\<close> is \<open>0\<close>.
\<close>

type_synonym Time = int

text \<open>\<open>sql.NullTime\<close>: a struct of a time and a validity flag.\<close>

record NullTime =
  NullTime_Time :: Time
  NullTime_Valid :: bool

definition NullTime_zero :: NullTime where
  "NullTime_zero = \<lparr>NullTime_Time = 0, NullTime_Valid = False\<rparr>"

text \<open>\<open>uuid.UUID\<close> is \<open>[16]byte\<close>; \<open>uuid.NullUUID\<close> pairs it with a validity flag.\<close>

type_synonym UUID = "byte list"

definition UUID_zero :: UUID where
  "UUID_zero = replicate 16 0"

record NullUUID =
  NullUUID_UUID :: UUID
  NullUUID_Valid :: bool

definition NullUUID_zero :: NullUUID where
  "NullUUID_zero = \<lparr>NullUUID_UUID = UUID_zero, NullUUID_Valid = False\<rparr>"

text \<open>
  Modelled from the spec: the type \<open>Base64\<close> and its functions \<open>NewBase64\<close>,
  \<open>Bytes\<close> and \<open>String\<close> are declared in another file of the package. It wraps the
  raw bytes of an identifier; \<open>String\<close> is the base64 text of the bytes
  (see \<open>Base64_String\<close> below).
\<close>

datatype Base64 = NewBase64 (Bytes: "byte list")

text \<open>The struct \<open>WebAuthnDevice\<close>.\<close>

record WebAuthnDevice =
  ID :: int
  CreatedAt :: Time
  LastUsedAt :: NullTime
  RPID :: string
  Username :: string
  Description :: string
  KID :: Base64
  AAGUID :: NullUUID
  AttestationType :: string
  Attachment :: string
  Transport :: string
  SignCount :: "32 word"
  CloneWarning :: bool
  Discoverable :: bool
  Present :: bool
  Verified :: bool
  BackupEligible :: bool
  BackupState :: bool
  PublicKey :: "byte list"

text \<open>The zero value of the struct, as a composite literal leaves the fields it omits.\<close>

definition WebAuthnDevice_zero :: WebAuthnDevice where
  "WebAuthnDevice_zero =
     \<lparr>ID = 0, CreatedAt = 0, LastUsedAt = NullTime_zero, RPID = [], Username = [],
      Description = [], KID = NewBase64 [], AAGUID = NullUUID_zero, AttestationType = [],
      Attachment = [], Transport = [], SignCount = 0, CloneWarning = False,
      Discoverable = False, Present = False, Verified = False, BackupEligible = False,
      BackupState = False, PublicKey = []\<rparr>"

definition attestationTypeFIDOU2F :: string where
  "attestationTypeFIDOU2F = ''fido-u2f''"

text \<open>The two fields of \<open>webauthn.Config\<close> that the package reads.\<close>

record Config =
  Config_RPID :: string
  RPOrigins :: "string list"

section \<open>Library functions the package calls\<close>

text \<open>
  The Go standard library and \<open>github.com/google/uuid\<close> are not part of the
  package. The functions it calls are written out here as they compute, on byte strings
  (\<open>string\<close> is a list of 8-bit characters, as a Go string is a sequence of bytes).
\<close>

subsection \<open>\<open>strings.Split\<close> and \<open>strings.Join\<close>\<close>

text \<open>
  \<open>strings.Split(s, sep)\<close> for a separator of one byte (the package only splits at
  \<open>","\<close>): the substrings between the separators, in order; a string without
  separator, the empty string included, gives the one-element list of itself.
  \<open>splitFrom sep seg s\<close> scans \<open>s\<close> with \<open>seg\<close> the segment read so far.
\<close>

fun splitFrom :: "char \<Rightarrow> string \<Rightarrow> string \<Rightarrow> string list" where
  "splitFrom sep seg [] = [seg]"
| "splitFrom sep seg (c # cs) =
     (if c = sep then seg # splitFrom sep [] cs else splitFrom sep (seg @ [c]) cs)"

definition strings_Split :: "string \<Rightarrow> char \<Rightarrow> string list" where
  "strings_Split s sep = splitFrom sep [] s"

fun strings_Join :: "string list \<Rightarrow> string \<Rightarrow> string" where
  "strings_Join [] sep = []"
| "strings_Join [x] sep = x"
| "strings_Join (x # y # ys) sep = x @ sep @ strings_Join (y # ys) sep"

subsection \<open>\<open>encoding/hex\<close>\<close>

definition hextable :: string where
  "hextable = ''0123456789abcdef''"

definition hexByte :: "byte \<Rightarrow> string" where
  "hexByte v = [hextable ! unat (drop_bit 4 v), hextable ! unat (v AND 0x0f)]"

definition hex_EncodeToString :: "byte list \<Rightarrow> string" where
  "hex_EncodeToString src = concat (map hexByte src)"

text \<open>
  The error values of the libraries. The offset that \<open>base64.CorruptInputError\<close>
  carries and the texts of the messages are left out: the package only tests errors
  against \<open>nil\<close> and hands them on.
\<close>

datatype error =
    CorruptInputError
  | InvalidUUIDFormat
  | InvalidURNPrefix
  | InvalidLengthError nat
  | YAMLError

subsection \<open>\<open>github.com/google/uuid\<close>\<close>

text \<open>\<open>xvalues\<close>: the value of a hexadecimal digit, 255 for any other byte.\<close>

definition xvalues :: "char \<Rightarrow> byte" where
  "xvalues c =
     (let n = (of_char c :: nat)
      in if 48 \<le> n \<and> n \<le> 57 then of_nat (n - 48)
         else if 97 \<le> n \<and> n \<le> 102 then of_nat (n - 87)
         else if 65 \<le> n \<and> n \<le> 70 then of_nat (n - 55)
         else 255)"

definition xtob :: "char \<Rightarrow> char \<Rightarrow> byte \<times> bool" where
  "xtob x1 x2 =
     (let b1 = xvalues x1; b2 = xvalues x2
      in (push_bit 4 b1 OR b2, b1 \<noteq> 255 \<and> b2 \<noteq> 255))"

text \<open>
  The loops of \<open>uuid.Parse\<close> over the positions of the sixteen pairs of digits: the
  first pair that is not hexadecimal ends the parse with an error.
\<close>

fun parseHexPairs :: "string \<Rightarrow> nat list \<Rightarrow> error + UUID" where
  "parseHexPairs s [] = Inr []"
| "parseHexPairs s (x # xs) =
     (case xtob (s ! x) (s ! (x + 1)) of
        (v, ok) \<Rightarrow>
          if \<not> ok then Inl InvalidUUIDFormat
          else (case parseHexPairs s xs of
                  Inl err \<Rightarrow> Inl err
                | Inr uuid \<Rightarrow> Inr (v # uuid)))"

definition parseDashed :: "string \<Rightarrow> error + UUID" where
  "parseDashed s =
     (if s ! 8 \<noteq> CHR ''-'' \<or> s ! 13 \<noteq> CHR ''-'' \<or> s ! 18 \<noteq> CHR ''-'' \<or> s ! 23 \<noteq> CHR ''-''
      then Inl InvalidUUIDFormat
      else parseHexPairs s [0, 2, 4, 6, 9, 11, 14, 16, 19, 21, 24, 26, 28, 30, 32, 34])"

definition toLowerASCII :: "char \<Rightarrow> char" where
  "toLowerASCII c =
     (let n = (of_char c :: nat) in if 65 \<le> n \<and> n \<le> 90 then char_of (n + 32) else c)"

text \<open>
  \<open>uuid.Parse\<close> (as of version 1.3 of the library): the four accepted lengths are the
  standard form, the form with the prefix \<open>urn:uuid:\<close> in any case, the form with one
  more byte on each side (meant for braces, which this version does not look at), and
  thirty-two digits without dashes. Every index read below is within the length tested.
\<close>

definition uuid_Parse :: "string \<Rightarrow> error + UUID" where
  "uuid_Parse s =
     (if length s = 36 then parseDashed s
      else if length s = 36 + 9 then
        (if map toLowerASCII (take 9 s) \<noteq> ''urn:uuid:'' then Inl InvalidURNPrefix
         else parseDashed (drop 9 s))
      else if length s = 36 + 2 then parseDashed (drop 1 s)
      else if length s = 32 then parseHexPairs s (map (\<lambda>i. i * 2) [0..<16])
      else Inl (InvalidLengthError (length s)))"

text \<open>\<open>UUID.String\<close>: lower-case digits in groups of 8, 4, 4, 4 and 12.\<close>

definition UUID_String :: "UUID \<Rightarrow> string" where
  "UUID_String uuid =
     hex_EncodeToString (take 4 uuid) @ ''-'' @
     hex_EncodeToString (take 2 (drop 4 uuid)) @ ''-'' @
     hex_EncodeToString (take 2 (drop 6 uuid)) @ ''-'' @
     hex_EncodeToString (take 2 (drop 8 uuid)) @ ''-'' @
     hex_EncodeToString (drop 10 uuid)"

text \<open>\<open>UUID.ID\<close> is \<open>binary.BigEndian.Uint32(uuid[0:4])\<close>.\<close>

definition UUID_ID :: "UUID \<Rightarrow> 32 word" where
  "UUID_ID uuid =
     ucast (uuid ! 3) OR push_bit 8 (ucast (uuid ! 2)) OR
     push_bit 16 (ucast (uuid ! 1)) OR push_bit 24 (ucast (uuid ! 0))"


subsection \<open>\<open>encoding/base64\<close>, \<open>StdEncoding\<close>\<close>

definition encodeStd :: string where
  "encodeStd = ''ABCDEFGHIJKLMNOPQRSTUVWXYZabcdefghijklmnopqrstuvwxyz0123456789+/''"

definition encodeSextet :: "32 word \<Rightarrow> nat \<Rightarrow> char" where
  "encodeSextet val k = encodeStd ! unat (drop_bit k val AND 0x3F)"

fun base64_EncodeToString :: "byte list \<Rightarrow> string" where
  "base64_EncodeToString (a # b # c # src) =
     (let val = push_bit 16 (ucast a) OR push_bit 8 (ucast b) OR ucast c
      in [encodeSextet val 18, encodeSextet val 12, encodeSextet val 6, encodeSextet val 0]
         @ base64_EncodeToString src)"
| "base64_EncodeToString [a, b] =
     (let val = push_bit 16 (ucast a) OR push_bit 8 (ucast b)
      in [encodeSextet val 18, encodeSextet val 12, encodeSextet val 6, CHR ''=''])"
| "base64_EncodeToString [a] =
     (let val = push_bit 16 (ucast a)
      in [encodeSextet val 18, encodeSextet val 12, CHR ''='', CHR ''=''])"
| "base64_EncodeToString [] = []"

text \<open>\<open>decodeMap\<close>: the position of a byte in the alphabet, \<open>0xFF\<close> outside it.\<close>

fun alphabetIndex :: "char \<Rightarrow> string \<Rightarrow> byte \<Rightarrow> byte" where
  "alphabetIndex c [] i = 0xFF"
| "alphabetIndex c (e # es) i = (if c = e then i else alphabetIndex c es (i + 1))"

definition decodeMap :: "char \<Rightarrow> byte" where
  "decodeMap c = alphabetIndex c encodeStd 0"

fun skipNewlines :: "string \<Rightarrow> string" where
  "skipNewlines [] = []"
| "skipNewlines (c # src) =
     (if c = CHR 0x0A \<or> c = CHR 0x0D then skipNewlines src else c # src)"

text \<open>
  The bytes of one quantum of which \<open>dbuf\<close> holds the two, three or four sextets read;
  the sextets not read are zero, and the bits left over are dropped unchecked (the
  encoding is not strict).
\<close>

definition quantumBytes :: "byte list \<Rightarrow> byte list" where
  "quantumBytes dbuf =
     (let q = dbuf @ replicate (4 - length dbuf) 0;
          val = (push_bit 18 (ucast (q ! 0)) OR push_bit 12 (ucast (q ! 1)) OR
                 push_bit 6 (ucast (q ! 2)) OR ucast (q ! 3) :: 32 word)
      in take (length dbuf - 1)
           [ucast (drop_bit 16 val), ucast (drop_bit 8 val), ucast val])"

text \<open>After the padding of the last quantum only line ends may follow.\<close>

definition afterPadding :: "byte list \<Rightarrow> string \<Rightarrow> byte list \<times> error option" where
  "afterPadding dbuf src =
     (quantumBytes dbuf, if skipNewlines src \<noteq> [] then Some CorruptInputError else None)"

text \<open>
  \<open>Encoding.Decode\<close> with \<open>decodeQuantum\<close>: \<open>dbuf\<close> holds the sextets of the quantum
  being read. Line feeds and carriage returns are skipped anywhere. The result is the
  pair that \<open>DecodeString\<close> returns: the bytes decoded before the error, and the error.
\<close>

fun decodeFrom :: "byte list \<Rightarrow> string \<Rightarrow> byte list \<times> error option" where
  "decodeFrom dbuf [] = ([], if dbuf = [] then None else Some CorruptInputError)"
| "decodeFrom dbuf (c # src) =
     (if decodeMap c \<noteq> 0xFF then
        (if length dbuf = 3 then
           (case decodeFrom [] src of
              (out, err) \<Rightarrow> (quantumBytes (dbuf @ [decodeMap c]) @ out, err))
         else decodeFrom (dbuf @ [decodeMap c]) src)
      else if c = CHR 0x0A \<or> c = CHR 0x0D then decodeFrom dbuf src
      else if c \<noteq> CHR ''='' then ([], Some CorruptInputError)
      else if length dbuf < 2 then ([], Some CorruptInputError)
      else if length dbuf = 2 then
        (case skipNewlines src of
           [] \<Rightarrow> ([], Some CorruptInputError)
         | c' # src' \<Rightarrow>
             if c' \<noteq> CHR ''='' then ([], Some CorruptInputError)
             else afterPadding dbuf src')
      else afterPadding dbuf src)"

definition base64_DecodeString :: "string \<Rightarrow> byte list \<times> error option" where
  "base64_DecodeString s = decodeFrom [] s"

text \<open>
  Modelled from the spec: \<open>Base64.String\<close>, declared in another file of the package.
  In the document form the identifier is base64 text, which \<open>ToDevice\<close> reads back with
  \<open>base64.StdEncoding\<close>.
\<close>

definition Base64_String :: "Base64 \<Rightarrow> string" where
  "Base64_String b = base64_EncodeToString (Bytes b)"

section \<open>\<open>UpdateSignInInfo\<close>\<close>

text \<open>
  The method mutates the device through its pointer receiver and returns nothing. It can
  stop in a run-time panic: \<open>config\<close> is a pointer (\<open>None\<close> is \<open>nil\<close>) and
  \<open>config.RPOrigins[0]\<close> is an index expression. The model returns the device as the
  method leaves it, also when it panics, together with the panic if there is one.
\<close>

datatype panic = NilPointerDereference | IndexOutOfRange

definition UpdateSignInInfo ::
  "Config option \<Rightarrow> Time \<Rightarrow> 32 word \<Rightarrow> WebAuthnDevice \<Rightarrow> panic option \<times> WebAuthnDevice" where
  "UpdateSignInInfo config now signCount d =
     (let d1 = d\<lparr>LastUsedAt := \<lparr>NullTime_Time = now, NullTime_Valid = True\<rparr>\<rparr>;
          d2 = d1\<lparr>SignCount := signCount\<rparr>
      in if RPID d2 \<noteq> [] then (None, d2)
         else if AttestationType d2 = attestationTypeFIDOU2F then
           (case config of
              None \<Rightarrow> (Some NilPointerDereference, d2)
            | Some c \<Rightarrow>
                (case RPOrigins c of
                   [] \<Rightarrow> (Some IndexOutOfRange, d2)
                 | origin # _ \<Rightarrow> (None, d2\<lparr>RPID := origin\<rparr>)))
         else
           (case config of
              None \<Rightarrow> (Some NilPointerDereference, d2)
            | Some c \<Rightarrow> (None, d2\<lparr>RPID := Config_RPID c\<rparr>)))"

section \<open>The document form: \<open>WebAuthnDeviceData\<close>\<close>

text \<open>
  The struct \<open>WebAuthnDeviceData\<close>. The pointers \<open>*time.Time\<close> and \<open>*string\<close> are
  options (\<open>None\<close> is \<open>nil\<close>). \<open>Transports\<close> is a slice, and a nil slice is not an
  empty one in the document (\<open>encoding/json\<close> writes \<open>null\<close> for the first and
  \<open>[]\<close> for the second): it is an option of a list, \<open>None\<close> for the nil slice.
  Everywhere else a slice is only read, and nil and empty are the same list.
\<close>

record WebAuthnDeviceData =
  Data_ID :: int
  Data_CreatedAt :: Time
  Data_LastUsedAt :: "Time option"
  Data_RPID :: string
  Data_Username :: string
  Data_Description :: string
  Data_KID :: string
  Data_AAGUID :: "string option"
  Data_AttestationType :: string
  Data_Attachment :: string
  Data_Transports :: "string list option"
  Data_SignCount :: "32 word"
  Data_CloneWarning :: bool
  Data_Discoverable :: bool
  Data_Present :: bool
  Data_Verified :: bool
  Data_BackupEligible :: bool
  Data_BackupState :: bool
  Data_PublicKey :: string

text \<open>The elements of a slice that may be nil, as \<open>range\<close> and \<open>strings.Join\<close> see them.\<close>

definition elems :: "'a list option \<Rightarrow> 'a list" where
  "elems xs = (case xs of None \<Rightarrow> [] | Some ys \<Rightarrow> ys)"

text \<open>The zero value \<open>WebAuthnDeviceData{}\<close>.\<close>

definition WebAuthnDeviceData_zero :: WebAuthnDeviceData where
  "WebAuthnDeviceData_zero =
     \<lparr>Data_ID = 0, Data_CreatedAt = 0, Data_LastUsedAt = None, Data_RPID = [],
      Data_Username = [], Data_Description = [], Data_KID = [], Data_AAGUID = None,
      Data_AttestationType = [], Data_Attachment = [], Data_Transports = None,
      Data_SignCount = 0, Data_CloneWarning = False, Data_Discoverable = False,
      Data_Present = False, Data_Verified = False, Data_BackupEligible = False,
      Data_BackupState = False, Data_PublicKey = []\<rparr>"

definition DataValueLastUsedAt :: "WebAuthnDevice \<Rightarrow> Time option" where
  "DataValueLastUsedAt d =
     (if NullTime_Valid (LastUsedAt d) then Some (NullTime_Time (LastUsedAt d)) else None)"

definition DataValueAAGUID :: "WebAuthnDevice \<Rightarrow> string option" where
  "DataValueAAGUID d =
     (if NullUUID_Valid (AAGUID d) then Some (UUID_String (NullUUID_UUID (AAGUID d)))
      else None)"

text \<open>
  \<open>ToData\<close>. The composite literal names seventeen fields; the two it does not name,
  \<open>Transports\<close> and \<open>Discoverable\<close>, start at their zero values. The variable
  \<open>o\<close> of the source is \<open>out\<close> here.
\<close>

definition ToData :: "WebAuthnDevice \<Rightarrow> WebAuthnDeviceData" where
  "ToData d =
     (let out = \<lparr>Data_ID = ID d,
                 Data_CreatedAt = CreatedAt d,
                 Data_LastUsedAt = DataValueLastUsedAt d,
                 Data_RPID = RPID d,
                 Data_Username = Username d,
                 Data_Description = Description d,
                 Data_KID = Base64_String (KID d),
                 Data_AAGUID = DataValueAAGUID d,
                 Data_AttestationType = AttestationType d,
                 Data_Attachment = Attachment d,
                 Data_Transports = None,
                 Data_SignCount = SignCount d,
                 Data_CloneWarning = CloneWarning d,
                 Data_Discoverable = False,
                 Data_Present = Present d,
                 Data_Verified = Verified d,
                 Data_BackupEligible = BackupEligible d,
                 Data_BackupState = BackupState d,
                 Data_PublicKey = base64_EncodeToString (PublicKey d)\<rparr>
      in if Transport d \<noteq> [] then
           out\<lparr>Data_Transports := Some (strings_Split (Transport d) CHR '','')\<rparr>
         else out)"

text \<open>
  \<open>ToDevice\<close> returns \<open>(nil, err)\<close> at the first error and \<open>(device, nil)\<close> otherwise.
  The fields of the new device that the composite literal leaves out (\<open>ID\<close>,
  \<open>LastUsedAt\<close>, \<open>KID\<close>, \<open>AAGUID\<close>, \<open>PublicKey\<close>) start at their zero values.
\<close>

definition ToDevice :: "WebAuthnDeviceData \<Rightarrow> error + WebAuthnDevice" where
  "ToDevice d =
     (let device = WebAuthnDevice_zero
            \<lparr>CreatedAt := Data_CreatedAt d,
             RPID := Data_RPID d,
             Username := Data_Username d,
             Description := Data_Description d,
             AttestationType := Data_AttestationType d,
             Attachment := Data_Attachment d,
             Transport := strings_Join (elems (Data_Transports d)) '','',
             SignCount := Data_SignCount d,
             CloneWarning := Data_CloneWarning d,
             Discoverable := Data_Discoverable d,
             Present := Data_Present d,
             Verified := Data_Verified d,
             BackupEligible := Data_BackupEligible d,
             BackupState := Data_BackupState d\<rparr>
      in case base64_DecodeString (Data_PublicKey d) of
           (_, Some err) \<Rightarrow> Inl err
         | (publicKey, None) \<Rightarrow>
             (let device = device\<lparr>PublicKey := publicKey\<rparr>;
                  parsed =
                    (case Data_AAGUID d of
                       None \<Rightarrow> Inr device
                     | Some s \<Rightarrow>
                         (case uuid_Parse s of
                            Inl err \<Rightarrow> Inl err
                          | Inr aaguid \<Rightarrow>
                              if UUID_ID aaguid \<noteq> 0 then
                                Inr (device\<lparr>AAGUID :=
                                       \<lparr>NullUUID_UUID = aaguid, NullUUID_Valid = True\<rparr>\<rparr>)
                              else Inr device))
              in case parsed of
                   Inl err \<Rightarrow> Inl err
                 | Inr device \<Rightarrow>
                     (case base64_DecodeString (Data_KID d) of
                        (_, Some err) \<Rightarrow> Inl err
                      | (kid, None) \<Rightarrow>
                          (let device = device\<lparr>KID := NewBase64 kid\<rparr>
                           in case Data_LastUsedAt d of
                                None \<Rightarrow> Inr device
                              | Some t \<Rightarrow>
                                  Inr (device\<lparr>LastUsedAt :=
                                         \<lparr>NullTime_Time = t, NullTime_Valid = True\<rparr>\<rparr>)))))"

text \<open>
  \<open>UnmarshalYAML\<close> writes into the device of its pointer receiver, field by field, and
  returns an error or \<open>nil\<close>. \<open>decoded\<close> is what \<open>value.Decode(o)\<close> gave for the YAML
  node: an error, or the document read into the variable \<open>o\<close> (here \<open>doc\<close>).
  The result is the error returned, if
  any, and the receiver as the method leaves it; \<open>base64.DecodeString\<close> returns the bytes
  it decoded before an error, and they are stored before the error is looked at.
\<close>

definition UnmarshalYAML ::
  "(error + WebAuthnDeviceData) \<Rightarrow> WebAuthnDevice \<Rightarrow> error option \<times> WebAuthnDevice" where
  "UnmarshalYAML decoded d =
     (case decoded of
        Inl err \<Rightarrow> (Some err, d)
      | Inr doc \<Rightarrow>
          (case base64_DecodeString (Data_PublicKey doc) of
             (publicKey, Some err) \<Rightarrow> (Some err, d\<lparr>PublicKey := publicKey\<rparr>)
           | (publicKey, None) \<Rightarrow>
               (let d = d\<lparr>PublicKey := publicKey\<rparr>;
                    parsed =
                      (case Data_AAGUID doc of
                         None \<Rightarrow> Inr d
                       | Some s \<Rightarrow>
                           (case uuid_Parse s of
                              Inl err \<Rightarrow> Inl err
                            | Inr aaguid \<Rightarrow>
                                if UUID_ID aaguid \<noteq> 0 then
                                  Inr (d\<lparr>AAGUID :=
                                         \<lparr>NullUUID_UUID = aaguid, NullUUID_Valid = True\<rparr>\<rparr>)
                                else Inr d))
                in case parsed of
                     Inl err \<Rightarrow> (Some err, d)
                   | Inr d \<Rightarrow>
                       (case base64_DecodeString (Data_KID doc) of
                          (_, Some err) \<Rightarrow> (Some err, d)
                        | (kid, None) \<Rightarrow>
                            (let d = d\<lparr>KID := NewBase64 kid,
                                       CreatedAt := Data_CreatedAt doc,
                                       RPID := Data_RPID doc,
                                       Username := Data_Username doc,
                                       Description := Data_Description doc,
                                       AttestationType := Data_AttestationType doc,
                                       Attachment := Data_Attachment doc,
                                       Transport := strings_Join (elems (Data_Transports doc)) '','',
                                       SignCount := Data_SignCount doc,
                                       CloneWarning := Data_CloneWarning doc,
                                       Discoverable := Data_Discoverable doc,
                                       Present := Data_Present doc,
                                       Verified := Data_Verified doc,
                                       BackupEligible := Data_BackupEligible doc,
                                       BackupState := Data_BackupState doc\<rparr>
                             in case Data_LastUsedAt doc of
                                  None \<Rightarrow> (None, d)
                                | Some t \<Rightarrow>
                                    (None, d\<lparr>LastUsedAt :=
                                              \<lparr>NullTime_Time = t, NullTime_Valid = True\<rparr>\<rparr>))))))"

section \<open>The ceremony library's side: credentials\<close>

text \<open>
  The fields of \<open>webauthn.Credential\<close>, \<open>webauthn.CredentialFlags\<close> and
  \<open>webauthn.Authenticator\<close> that the package reads and writes. A transport and an
  attachment are strings under another name.
\<close>

record CredentialFlags =
  UserPresent :: bool
  UserVerified :: bool
  Flags_BackupEligible :: bool
  Flags_BackupState :: bool

record Authenticator =
  Authenticator_AAGUID :: "byte list"
  Authenticator_SignCount :: "32 word"
  Authenticator_CloneWarning :: bool
  Authenticator_Attachment :: string

record Credential =
  Credential_ID :: "byte list"
  Credential_PublicKey :: "byte list"
  Credential_AttestationType :: string
  Credential_Transport :: "string list"
  Flags :: CredentialFlags
  Credential_Authenticator :: Authenticator

text \<open>The zero value, which \<open>make\<close> puts at every index of a new slice.\<close>

definition Credential_zero :: Credential where
  "Credential_zero =
     \<lparr>Credential_ID = [], Credential_PublicKey = [], Credential_AttestationType = [],
      Credential_Transport = [],
      Flags = \<lparr>UserPresent = False, UserVerified = False, Flags_BackupEligible = False,
               Flags_BackupState = False\<rparr>,
      Credential_Authenticator =
        \<lparr>Authenticator_AAGUID = [], Authenticator_SignCount = 0,
         Authenticator_CloneWarning = False, Authenticator_Attachment = []\<rparr>\<rparr>"





text \<open>
  \<open>NewWebAuthnDeviceFromCredential\<close>. The credential is a pointer (\<open>None\<close> is \<open>nil\<close>,
  which the first line dereferences); \<open>now\<close> is the value \<open>time.Now()\<close> returns.
\<close>

definition NewWebAuthnDeviceFromCredential ::
  "Time \<Rightarrow> string \<Rightarrow> string \<Rightarrow> string \<Rightarrow> Credential option \<Rightarrow> panic + WebAuthnDevice" where
  "NewWebAuthnDeviceFromCredential now rpid username description credential =
     (case credential of
        None \<Rightarrow> Inl NilPointerDereference
      | Some c \<Rightarrow>
          (let transport = map (\<lambda>t. t) (Credential_Transport c);
               device = WebAuthnDevice_zero
                 \<lparr>RPID := rpid,
                  Username := username,
                  CreatedAt := now,
                  Description := description,
                  KID := NewBase64 (Credential_ID c),
                  AttestationType := Credential_AttestationType c,
                  Attachment := Authenticator_Attachment (Credential_Authenticator c),
                  Transport := strings_Join transport '','',
                  SignCount := Authenticator_SignCount (Credential_Authenticator c),
                  CloneWarning := Authenticator_CloneWarning (Credential_Authenticator c),
                  Discoverable := False,
                  Present := UserPresent (Flags c),
                  Verified := UserVerified (Flags c),
                  BackupEligible := Flags_BackupEligible (Flags c),
                  BackupState := Flags_BackupState (Flags c),
                  PublicKey := Credential_PublicKey c\<rparr>
           in case uuid_Parse (hex_EncodeToString (Authenticator_AAGUID (Credential_Authenticator c))) of
                Inl err \<Rightarrow> Inr device
              | Inr aaguid \<Rightarrow>
                  if UUID_ID aaguid \<noteq> 0 then
                    Inr (device\<lparr>AAGUID := \<lparr>NullUUID_UUID = aaguid, NullUUID_Valid = True\<rparr>\<rparr>)
                  else Inr device))"

section \<open>The schema migration\<close>

text \<open>
  The script of the migration (PostgreSQL) is modelled on tables that are lists of rows.
  A statement either fails, which ends the script with the error, or gives the next state
  of the database.
\<close>

datatype sql_error =
    DuplicateRelation string
  | UndefinedTable string
  | NotNullViolation string
  | UniqueViolation string

text \<open>
  A row of \<open>webauthn_credentials\<close>. The declaration of the table is not part of the
  sources: a row has the twelve columns that the script selects and the column
  \<open>legacy\<close> of its \<open>WHERE\<close> clause, each of them possibly \<open>NULL\<close> (\<open>None\<close>), and,
  in the extension of the record, whatever other columns the table has. The values of
  the selected columns are taken to be of the types of the columns they are copied into.
\<close>

record legacy_row =
  legacy_created_at :: "Time option"
  legacy_last_used_at :: "Time option"
  legacy_rpid :: "string option"
  legacy_username :: "string option"
  legacy_description :: "string option"
  legacy_kid :: "string option"
  legacy_public_key :: "byte list option"
  legacy_attestation_type :: "string option"
  legacy_transport :: "string option"
  legacy_aaguid :: "string option"
  legacy_sign_count :: "int option"
  legacy_clone_warning :: "bool option"
  legacy :: "bool option"

text \<open>
  A row of \<open>webauthn_devices\<close>, as \<open>CREATE TABLE\<close> declares it: a column declared
  \<open>NOT NULL\<close> holds a value, any other column a value or \<open>NULL\<close>.
\<close>

record device_row =
  row_id :: int
  row_created_at :: Time
  row_last_used_at :: "Time option"
  row_rpid :: "string option"
  row_username :: string
  row_description :: string
  row_kid :: string
  row_public_key :: "byte list"
  row_attestation_type :: "string option"
  row_transport :: "string option"
  row_aaguid :: string
  row_sign_count :: "int option"
  row_clone_warning :: bool

text \<open>
  The part of the database that the script touches: the three tables (\<open>None\<close> when the
  table does not exist), the next value of the sequence behind the \<open>SERIAL\<close> column, and
  the names of the indexes that exist.
\<close>

record ('a, 'u) database =
  webauthn_credentials :: "'a legacy_row_scheme list option"
  webauthn_users :: "'u list option"
  webauthn_devices :: "device_row list option"
  webauthn_devices_id_seq :: int
  indexes :: "string list"

definition andThen :: "sql_error + 'a \<Rightarrow> ('a \<Rightarrow> sql_error + 'b) \<Rightarrow> sql_error + 'b" where
  "andThen r f = (case r of Inl err \<Rightarrow> Inl err | Inr x \<Rightarrow> f x)"

text \<open>
  \<open>CREATE TABLE IF NOT EXISTS webauthn_devices\<close>: nothing happens when the table
  exists; otherwise it is created empty, with a new sequence that starts at 1.
\<close>

definition createTableIfNotExists :: "('a, 'u) database \<Rightarrow> sql_error + ('a, 'u) database" where
  "createTableIfNotExists db =
     (case webauthn_devices db of
        Some rows \<Rightarrow> Inr db
      | None \<Rightarrow> Inr (db\<lparr>webauthn_devices := Some [], webauthn_devices_id_seq := 1\<rparr>))"

text \<open>
  \<open>CREATE UNIQUE INDEX name ON webauthn_devices (columns)\<close>, \<open>key\<close> being the value
  of the columns in a row.
\<close>

definition createUniqueIndex ::
  "string \<Rightarrow> (device_row \<Rightarrow> 'k) \<Rightarrow> ('a, 'u) database \<Rightarrow> sql_error + ('a, 'u) database" where
  "createUniqueIndex name key db =
     (if name \<in> set (indexes db) then Inl (DuplicateRelation name)
      else case webauthn_devices db of
             None \<Rightarrow> Inl (UndefinedTable ''webauthn_devices'')
           | Some rows \<Rightarrow>
               if \<not> distinct (map key rows) then Inl (UniqueViolation name)
               else Inr (db\<lparr>indexes := name # indexes db\<rparr>))"

definition lookup_key :: "device_row \<Rightarrow> string \<times> string" where
  "lookup_key r = (row_username r, row_description r)"

text \<open>
  The row that \<open>INSERT\<close> builds from a selected row: the twelve values, column by column
  in the order of the two lists of the statement, and the next value of the sequence as
  \<open>id\<close>. A \<open>NULL\<close> for a column declared \<open>NOT NULL\<close> is an error (a default only
  stands in for a column that the statement does not name).
\<close>

definition notNull :: "string \<Rightarrow> 'v option \<Rightarrow> sql_error + 'v" where
  "notNull column v = (case v of None \<Rightarrow> Inl (NotNullViolation column) | Some x \<Rightarrow> Inr x)"

definition newRow :: "int \<Rightarrow> 'a legacy_row_scheme \<Rightarrow> sql_error + device_row" where
  "newRow n r =
     andThen (notNull ''created_at'' (legacy_created_at r)) (\<lambda>created_at.
     andThen (notNull ''username'' (legacy_username r)) (\<lambda>username.
     andThen (notNull ''description'' (legacy_description r)) (\<lambda>description.
     andThen (notNull ''kid'' (legacy_kid r)) (\<lambda>kid.
     andThen (notNull ''public_key'' (legacy_public_key r)) (\<lambda>public_key.
     andThen (notNull ''aaguid'' (legacy_aaguid r)) (\<lambda>aaguid.
     andThen (notNull ''clone_warning'' (legacy_clone_warning r)) (\<lambda>clone_warning.
       Inr \<lparr>row_id = n,
            row_created_at = created_at,
            row_last_used_at = legacy_last_used_at r,
            row_rpid = legacy_rpid r,
            row_username = username,
            row_description = description,
            row_kid = kid,
            row_public_key = public_key,
            row_attestation_type = legacy_attestation_type r,
            row_transport = legacy_transport r,
            row_aaguid = aaguid,
            row_sign_count = legacy_sign_count r,
            row_clone_warning = clone_warning\<rparr>)))))))"

text \<open>
  Storing one row: the primary key and the unique indexes that exist are checked against
  the rows of the table.
\<close>

definition insertRow ::
  "'a legacy_row_scheme \<Rightarrow> ('a, 'u) database \<Rightarrow> sql_error + ('a, 'u) database" where
  "insertRow r db =
     (case webauthn_devices db of
        None \<Rightarrow> Inl (UndefinedTable ''webauthn_devices'')
      | Some rows \<Rightarrow>
          (let n = webauthn_devices_id_seq db;
               db = db\<lparr>webauthn_devices_id_seq := n + 1\<rparr>
           in andThen (newRow n r) (\<lambda>row.
                if row_id row \<in> set (map row_id rows) then
                  Inl (UniqueViolation ''webauthn_devices_pkey'')
                else if ''webauthn_devices_kid_key'' \<in> set (indexes db)
                        \<and> row_kid row \<in> set (map row_kid rows) then
                  Inl (UniqueViolation ''webauthn_devices_kid_key'')
                else if ''webauthn_devices_lookup_key'' \<in> set (indexes db)
                        \<and> lookup_key row \<in> set (map lookup_key rows) then
                  Inl (UniqueViolation ''webauthn_devices_lookup_key'')
                else Inr (db\<lparr>webauthn_devices := Some (rows @ [row])\<rparr>))))"

fun insertRows ::
  "'a legacy_row_scheme list \<Rightarrow> ('a, 'u) database \<Rightarrow> sql_error + ('a, 'u) database" where
  "insertRows [] db = Inr db"
| "insertRows (r # rs) db = andThen (insertRow r db) (insertRows rs)"

text \<open>
  \<open>INSERT INTO webauthn_devices (...) SELECT ... FROM webauthn_credentials WHERE legacy = TRUE\<close>:
  the rows whose \<open>legacy\<close> is true (not false, not \<open>NULL\<close>), in the order of the table.
\<close>

definition insertSelect :: "('a, 'u) database \<Rightarrow> sql_error + ('a, 'u) database" where
  "insertSelect db =
     (case webauthn_credentials db of
        None \<Rightarrow> Inl (UndefinedTable ''webauthn_credentials'')
      | Some credentials \<Rightarrow> insertRows (filter (\<lambda>r. legacy r = Some True) credentials) db)"

text \<open>\<open>DROP TABLE IF EXISTS\<close> for the two legacy tables.\<close>

definition dropCredentialsIfExists :: "('a, 'u) database \<Rightarrow> sql_error + ('a, 'u) database" where
  "dropCredentialsIfExists db = Inr (db\<lparr>webauthn_credentials := None\<rparr>)"

definition dropUsersIfExists :: "('a, 'u) database \<Rightarrow> sql_error + ('a, 'u) database" where
  "dropUsersIfExists db = Inr (db\<lparr>webauthn_users := None\<rparr>)"

text \<open>The script: its six statements in order.\<close>

definition migration :: "('a, 'u) database \<Rightarrow> sql_error + ('a, 'u) database" where
  "migration db =
     andThen (createTableIfNotExists db) (\<lambda>db.
     andThen (createUniqueIndex ''webauthn_devices_kid_key'' row_kid db) (\<lambda>db.
     andThen (createUniqueIndex ''webauthn_devices_lookup_key'' lookup_key db) (\<lambda>db.
     andThen (insertSelect db) (\<lambda>db.
     andThen (dropCredentialsIfExists db) dropUsersIfExists))))"

text \<open>The twelve columns of a row of the device table are those of a legacy row.\<close>

definition carried :: "'a legacy_row_scheme \<Rightarrow> device_row \<Rightarrow> bool" where
  "carried r row \<longleftrightarrow>
     legacy_created_at r = Some (row_created_at row)
   \<and> legacy_last_used_at r = row_last_used_at row
   \<and> legacy_rpid r = row_rpid row
   \<and> legacy_username r = Some (row_username row)
   \<and> legacy_description r = Some (row_description row)
   \<and> legacy_kid r = Some (row_kid row)
   \<and> legacy_public_key r = Some (row_public_key row)
   \<and> legacy_attestation_type r = row_attestation_type row
   \<and> legacy_transport r = row_transport row
   \<and> legacy_aaguid r = Some (row_aaguid row)
   \<and> legacy_sign_count r = row_sign_count row
   \<and> legacy_clone_warning r = Some (row_clone_warning row)"

text \<open>
  What makes the script succeed on the selected rows: a value in every column that the
  device table declares \<open>NOT NULL\<close>, and keys that the two unique indexes accept.
\<close>

definition complete :: "'a legacy_row_scheme \<Rightarrow> bool" where
  "complete r \<longleftrightarrow>
     legacy_created_at r \<noteq> None \<and> legacy_username r \<noteq> None \<and> legacy_description r \<noteq> None
   \<and> legacy_kid r \<noteq> None \<and> legacy_public_key r \<noteq> None \<and> legacy_aaguid r \<noteq> None
   \<and> legacy_clone_warning r \<noteq> None"

definition legacy_lookup_key :: "'a legacy_row_scheme \<Rightarrow> string option \<times> string option" where
  "legacy_lookup_key r = (legacy_username r, legacy_description r)"

section \<open>Properties of \<open>UpdateSignInInfo\<close>\<close>

text \<open>
  C3. Whatever the configuration, the time and the sign count, and whether or not the
  call panics, the device that \<open>UpdateSignInInfo\<close> leaves behind has a clone warning
  that is still set if it was set, an RPID that is the old one if the old one was not
  empty, and differs from the device before the call in no field other than the last-used
  time, the sign count and the RPID.
\<close>

theorem UpdateSignInInfo_frame:
  assumes "UpdateSignInInfo config now signCount d = (p, d')"
  shows "(CloneWarning d \<longrightarrow> CloneWarning d')
       \<and> (RPID d \<noteq> [] \<longrightarrow> RPID d' = RPID d)
       \<and> d'\<lparr>LastUsedAt := LastUsedAt d, SignCount := SignCount d, RPID := RPID d\<rparr> = d"
  using assms
  by (auto simp: UpdateSignInInfo_def Let_def split: if_splits option.splits list.splits)

theorem UpdateSignInInfo_frame_witness:
  "UpdateSignInInfo (Some \<lparr>Config_RPID = ''example.com'', RPOrigins = [''https://example.com'']\<rparr>)
       1700 7 (WebAuthnDevice_zero\<lparr>RPID := ''auth.example.com'', CloneWarning := True\<rparr>)
     = (None, WebAuthnDevice_zero\<lparr>RPID := ''auth.example.com'', CloneWarning := True,
          LastUsedAt := \<lparr>NullTime_Time = 1700, NullTime_Valid = True\<rparr>, SignCount := 7\<rparr>)
   \<and> CloneWarning (WebAuthnDevice_zero\<lparr>RPID := ''auth.example.com'', CloneWarning := True,
          LastUsedAt := \<lparr>NullTime_Time = 1700, NullTime_Valid = True\<rparr>, SignCount := 7\<rparr>)
   \<and> RPID (WebAuthnDevice_zero\<lparr>RPID := ''auth.example.com'', CloneWarning := True,
          LastUsedAt := \<lparr>NullTime_Time = 1700, NullTime_Valid = True\<rparr>, SignCount := 7\<rparr>)
       = ''auth.example.com''"
proof -
  let ?d = "WebAuthnDevice_zero\<lparr>RPID := ''auth.example.com'', CloneWarning := True\<rparr>"
  let ?d' = "WebAuthnDevice_zero\<lparr>RPID := ''auth.example.com'', CloneWarning := True,
          LastUsedAt := \<lparr>NullTime_Time = 1700, NullTime_Valid = True\<rparr>, SignCount := 7\<rparr>"
  let ?c = "Some \<lparr>Config_RPID = ''example.com'', RPOrigins = [''https://example.com'']\<rparr>"
  have run: "UpdateSignInInfo ?c 1700 7 ?d = (None, ?d')"
    by (simp add: UpdateSignInInfo_def WebAuthnDevice_zero_def)
  have pre: "CloneWarning ?d" "RPID ?d \<noteq> []"
    by (simp_all add: WebAuthnDevice_zero_def)
  from UpdateSignInInfo_frame [OF run] pre run show ?thesis
    by simp
qed

text \<open>
  C4. With a configuration whose list of origins is not empty, the call does not panic;
  afterwards the last-used time is the given time (and valid) and the sign count is the
  given one, whatever they were; and if the RPID was empty before the call, it is
  afterwards the first configured origin when the attestation type is \<open>fido-u2f\<close>, and
  the configured RPID otherwise.
\<close>

theorem UpdateSignInInfo_sets:
  assumes "RPOrigins c \<noteq> []"
    and "UpdateSignInInfo (Some c) now signCount d = (p, d')"
  shows "p = None
       \<and> LastUsedAt d' = \<lparr>NullTime_Time = now, NullTime_Valid = True\<rparr>
       \<and> SignCount d' = signCount
       \<and> (RPID d = [] \<longrightarrow>
            RPID d' = (if AttestationType d = ''fido-u2f'' then hd (RPOrigins c)
                       else Config_RPID c))"
  using assms
  by (auto simp: UpdateSignInInfo_def Let_def attestationTypeFIDOU2F_def
           split: if_splits list.splits)

theorem UpdateSignInInfo_sets_witness:
  "RPOrigins \<lparr>Config_RPID = ''example.com'', RPOrigins = [''https://example.com'']\<rparr> \<noteq> []
   \<and> RPID (WebAuthnDevice_zero\<lparr>AttestationType := ''fido-u2f''\<rparr>) = []
   \<and> UpdateSignInInfo (Some \<lparr>Config_RPID = ''example.com'', RPOrigins = [''https://example.com'']\<rparr>)
        1700 7 (WebAuthnDevice_zero\<lparr>AttestationType := ''fido-u2f''\<rparr>)
      = (None, WebAuthnDevice_zero\<lparr>AttestationType := ''fido-u2f'',
           LastUsedAt := \<lparr>NullTime_Time = 1700, NullTime_Valid = True\<rparr>, SignCount := 7,
           RPID := ''https://example.com''\<rparr>)
   \<and> RPID (WebAuthnDevice_zero\<lparr>AttestationType := ''fido-u2f'',
           LastUsedAt := \<lparr>NullTime_Time = 1700, NullTime_Valid = True\<rparr>, SignCount := 7,
           RPID := ''https://example.com''\<rparr>) = ''https://example.com''"
proof -
  let ?c = "\<lparr>Config_RPID = ''example.com'', RPOrigins = [''https://example.com'']\<rparr>"
  let ?d = "WebAuthnDevice_zero\<lparr>AttestationType := ''fido-u2f''\<rparr>"
  let ?d' = "WebAuthnDevice_zero\<lparr>AttestationType := ''fido-u2f'',
           LastUsedAt := \<lparr>NullTime_Time = 1700, NullTime_Valid = True\<rparr>, SignCount := 7,
           RPID := ''https://example.com''\<rparr>"
  have origins: "RPOrigins ?c \<noteq> []"
    by simp
  have empty: "RPID ?d = []"
    by (simp add: WebAuthnDevice_zero_def)
  have run: "UpdateSignInInfo (Some ?c) 1700 7 ?d = (None, ?d')"
    by (simp add: UpdateSignInInfo_def WebAuthnDevice_zero_def attestationTypeFIDOU2F_def)
  from UpdateSignInInfo_sets [OF origins run] origins empty run show ?thesis
    by simp
qed

section \<open>The transport codec\<close>







section \<open>Importing a document: \<open>ToDevice\<close>\<close>

lemma decode_AQID: "base64_DecodeString ''AQID'' = ([1, 2, 3], None)"
  by (simp add: base64_DecodeString_def decodeMap_def encodeStd_def quantumBytes_def)

lemma decode_BAU: "base64_DecodeString ''BAU='' = ([4, 5], None)"
  by (simp add: base64_DecodeString_def decodeMap_def encodeStd_def quantumBytes_def
      afterPadding_def)

lemma decode_AQI: "base64_DecodeString ''AQI'' = ([], Some CorruptInputError)"
  by (simp add: base64_DecodeString_def decodeMap_def encodeStd_def)

lemma parse_not_a_uuid: "uuid_Parse ''not-a-uuid'' = Inl (InvalidLengthError 10)"
  by (simp add: uuid_Parse_def)

lemma parse_low_bit:
  "uuid_Parse ''00000000-0000-0000-0000-000000000001'' =
     Inr [0, 0, 0, 0, 0, 0, 0, 0, 0, 0, 0, 0, 0, 0, 0, 1]"
  by (simp add: uuid_Parse_def parseDashed_def xtob_def xvalues_def)

text \<open>
  C6. \<open>ToDevice\<close> returns an error exactly when \<open>base64.StdEncoding\<close> does not decode
  the public key, or does not decode the KID, or the document has an AAGUID string that
  \<open>uuid.Parse\<close> rejects. In every other case it returns a device.
\<close>

theorem ToDevice_fails_iff:
  "isl (ToDevice d) \<longleftrightarrow>
     snd (base64_DecodeString (Data_PublicKey d)) \<noteq> None
   \<or> snd (base64_DecodeString (Data_KID d)) \<noteq> None
   \<or> (\<exists>s. Data_AAGUID d = Some s \<and> isl (uuid_Parse s))"
  by (auto simp: ToDevice_def Let_def split: prod.splits option.splits sum.splits if_splits)

theorem ToDevice_fails_iff_witness:
  "isl (ToDevice (WebAuthnDeviceData_zero\<lparr>Data_PublicKey := ''AQI'', Data_KID := ''BAU=''\<rparr>))
   \<and> isl (ToDevice (WebAuthnDeviceData_zero\<lparr>Data_PublicKey := ''AQID'', Data_KID := ''AQI''\<rparr>))
   \<and> isl (ToDevice (WebAuthnDeviceData_zero\<lparr>Data_PublicKey := ''AQID'', Data_KID := ''BAU='',
                       Data_AAGUID := Some ''not-a-uuid''\<rparr>))
   \<and> \<not> isl (ToDevice (WebAuthnDeviceData_zero\<lparr>Data_PublicKey := ''AQID'', Data_KID := ''BAU='',
                       Data_AAGUID := Some ''00000000-0000-0000-0000-000000000001''\<rparr>))
   \<and> \<not> isl (ToDevice (WebAuthnDeviceData_zero\<lparr>Data_PublicKey := ''AQID'', Data_KID := ''BAU=''\<rparr>))"
  by (simp add: ToDevice_fails_iff WebAuthnDeviceData_zero_def decode_AQID decode_BAU decode_AQI
      parse_not_a_uuid parse_low_bit)

section \<open>The AAGUID of a device\<close>

lemma parseHexPairs_length:
  "parseHexPairs s xs = Inr uuid \<Longrightarrow> length uuid = length xs"
  by (induction xs arbitrary: uuid) (auto split: prod.splits if_splits sum.splits)

lemma parseDashed_length:
  "parseDashed s = Inr uuid \<Longrightarrow> length uuid = 16"
  unfolding parseDashed_def
  by (auto simp del: parseHexPairs.simps split: if_splits dest!: parseHexPairs_length)

lemma uuid_Parse_length:
  "uuid_Parse s = Inr uuid \<Longrightarrow> length uuid = 16"
  unfolding uuid_Parse_def
  by (auto simp del: parseHexPairs.simps split: if_splits
      dest!: parseHexPairs_length parseDashed_length)

lemma shifted_byte_zero:
  fixes x :: byte
  assumes "n \<le> 24"
  shows "(push_bit n (ucast x :: 32 word) = 0) = (x = 0)"
proof
  assume z: "push_bit n (ucast x :: 32 word) = 0"
  show "x = 0"
  proof (rule bit_eqI)
    fix k
    assume "possible_bit TYPE(byte) k"
    then have k: "k < 8" by (simp add: possible_bit_def)
    from z have "\<not> bit (push_bit n (ucast x :: 32 word)) (n + k)" by simp
    with k assms show "bit x k = bit (0::byte) k"
      by (simp add: bit_push_bit_iff bit_ucast_iff possible_bit_def)
  qed
qed simp

lemma UUID_ID_first_four:
  "UUID_ID (a # b # c # d # r) = 0 \<longleftrightarrow> a = 0 \<and> b = 0 \<and> c = 0 \<and> d = 0"
proof -
  have "UUID_ID (a # b # c # d # r) =
      push_bit 0 (ucast d) OR push_bit 8 (ucast c) OR push_bit 16 (ucast b) OR push_bit 24 (ucast a)"
    by (simp add: UUID_ID_def)
  then show ?thesis
    by (simp only: or_eq_0_iff shifted_byte_zero) auto
qed

lemma UUID_ID_zero_iff:
  assumes "length uuid = 16"
  shows "UUID_ID uuid = 0 \<longleftrightarrow> take 4 uuid = [0, 0, 0, 0]"
proof -
  from assms obtain a b c d r where "uuid = a # b # c # d # r"
    by (auto simp: numeral_eq_Suc length_Suc_conv)
  then show ?thesis
    by (simp only: UUID_ID_first_four) auto
qed

lemma replicate_16:
  "replicate 16 x = [x, x, x, x, x, x, x, x, x, x, x, x, x, x, x, x]"
  by (simp add: numeral_eq_Suc)

lemma even_positions:
  "map (\<lambda>i. i * 2) [0..<16] = [0, 2, 4, 6, 8, 10, 12, 14, 16, 18, 20, 22, 24, 26, 28, 30]"
  by code_simp

lemma parse_hex_zero: "uuid_Parse (hex_EncodeToString (replicate 16 0)) = Inr UUID_zero"
  by (simp add: replicate_16 even_positions uuid_Parse_def hex_EncodeToString_def hexByte_def hextable_def
      xtob_def xvalues_def UUID_zero_def)

lemma UUID_ID_zero: "UUID_ID UUID_zero = 0"
  by (simp add: UUID_zero_def replicate_16 UUID_ID_def)

lemma New_AAGUID_cases:
  "NewWebAuthnDeviceFromCredential now rpid username description (Some c) = Inr device \<Longrightarrow>
   AAGUID device =
     (case uuid_Parse (hex_EncodeToString (Authenticator_AAGUID (Credential_Authenticator c))) of
        Inl err \<Rightarrow> NullUUID_zero
      | Inr aaguid \<Rightarrow>
          if UUID_ID aaguid \<noteq> 0 then \<lparr>NullUUID_UUID = aaguid, NullUUID_Valid = True\<rparr>
          else NullUUID_zero)"
  by (auto simp: NewWebAuthnDeviceFromCredential_def Let_def WebAuthnDevice_zero_def
      split: sum.splits if_splits)

lemma New_total:
  "\<exists>device. NewWebAuthnDeviceFromCredential now rpid username description (Some c) = Inr device"
  by (auto simp: NewWebAuthnDeviceFromCredential_def Let_def split: sum.splits)

lemma ToDevice_AAGUID_cases:
  "ToDevice d = Inr device \<Longrightarrow>
   AAGUID device =
     (case Data_AAGUID d of
        None \<Rightarrow> NullUUID_zero
      | Some s \<Rightarrow>
          (case uuid_Parse s of
             Inl err \<Rightarrow> NullUUID_zero
           | Inr aaguid \<Rightarrow>
               if UUID_ID aaguid \<noteq> 0 then \<lparr>NullUUID_UUID = aaguid, NullUUID_Valid = True\<rparr>
               else NullUUID_zero))"
  by (auto simp: ToDevice_def Let_def WebAuthnDevice_zero_def
      split: prod.splits option.splits sum.splits if_splits)

lemma UnmarshalYAML_AAGUID_cases:
  "AAGUID (snd (UnmarshalYAML (Inr doc) r)) =
     (case snd (base64_DecodeString (Data_PublicKey doc)) of
        Some err \<Rightarrow> AAGUID r
      | None \<Rightarrow>
          (case Data_AAGUID doc of
             None \<Rightarrow> AAGUID r
           | Some s \<Rightarrow>
               (case uuid_Parse s of
                  Inl err \<Rightarrow> AAGUID r
                | Inr aaguid \<Rightarrow>
                    if UUID_ID aaguid \<noteq> 0 then \<lparr>NullUUID_UUID = aaguid, NullUUID_Valid = True\<rparr>
                    else AAGUID r)))"
  by (auto simp: UnmarshalYAML_def Let_def
      split: prod.splits option.splits sum.splits if_splits)

lemma parse_dashed_zero:
  "uuid_Parse ''00000000-0000-0000-0000-000000000000'' = Inr UUID_zero"
  by (simp add: uuid_Parse_def parseDashed_def xtob_def xvalues_def UUID_zero_def replicate_16)

lemma parse_hex_short: "uuid_Parse (hex_EncodeToString [1, 2, 3]) = Inl (InvalidLengthError 6)"
  by (simp add: uuid_Parse_def hex_EncodeToString_def hexByte_def)

text \<open>
  C7. A zero UUID never becomes the AAGUID of a device. A credential whose authenticator
  reports sixteen zero bytes gives a new device without AAGUID; a document whose AAGUID
  string parses to the zero UUID gives, when the import succeeds, a device without AAGUID;
  and when the bytes of the authenticator do not parse as a UUID at all, the construction
  still returns a device, without AAGUID.
\<close>

theorem zero_AAGUID_is_absent:
  "(Authenticator_AAGUID (Credential_Authenticator c) = replicate 16 0 \<longrightarrow>
      (\<exists>device. NewWebAuthnDeviceFromCredential now rpid username description (Some c) = Inr device
         \<and> AAGUID device = NullUUID_zero))
   \<and> (Data_AAGUID d = Some s \<and> uuid_Parse s = Inr UUID_zero \<and> ToDevice d = Inr device' \<longrightarrow>
        AAGUID device' = NullUUID_zero)
   \<and> (isl (uuid_Parse (hex_EncodeToString (Authenticator_AAGUID (Credential_Authenticator c')))) \<longrightarrow>
        (\<exists>device. NewWebAuthnDeviceFromCredential now rpid username description (Some c') = Inr device
           \<and> AAGUID device = NullUUID_zero))"
proof (intro conjI impI)
  assume "Authenticator_AAGUID (Credential_Authenticator c) = replicate 16 0"
  then have "uuid_Parse (hex_EncodeToString (Authenticator_AAGUID (Credential_Authenticator c)))
      = Inr UUID_zero"
    by (simp only: parse_hex_zero)
  moreover obtain device where
    "NewWebAuthnDeviceFromCredential now rpid username description (Some c) = Inr device"
    using New_total by blast
  ultimately show "\<exists>device. NewWebAuthnDeviceFromCredential now rpid username description (Some c)
      = Inr device \<and> AAGUID device = NullUUID_zero"
    by (auto dest: New_AAGUID_cases simp: UUID_ID_zero)
next
  assume "Data_AAGUID d = Some s \<and> uuid_Parse s = Inr UUID_zero \<and> ToDevice d = Inr device'"
  then show "AAGUID device' = NullUUID_zero"
    by (auto dest: ToDevice_AAGUID_cases simp: UUID_ID_zero)
next
  assume "isl (uuid_Parse (hex_EncodeToString (Authenticator_AAGUID (Credential_Authenticator c'))))"
  moreover obtain device where
    "NewWebAuthnDeviceFromCredential now rpid username description (Some c') = Inr device"
    using New_total by blast
  ultimately show "\<exists>device. NewWebAuthnDeviceFromCredential now rpid username description (Some c')
      = Inr device \<and> AAGUID device = NullUUID_zero"
    by (auto dest: New_AAGUID_cases simp: isl_def)
qed

lemma ToDevice_zero_string:
  "ToDevice (WebAuthnDeviceData_zero\<lparr>Data_PublicKey := ''AQID'', Data_KID := ''BAU='',
       Data_AAGUID := Some ''00000000-0000-0000-0000-000000000000''\<rparr>)
   = Inr (WebAuthnDevice_zero\<lparr>PublicKey := [1, 2, 3], KID := NewBase64 [4, 5]\<rparr>)"
  by (simp add: ToDevice_def WebAuthnDeviceData_zero_def WebAuthnDevice_zero_def decode_AQID
      decode_BAU parse_dashed_zero UUID_ID_zero elems_def)

theorem zero_AAGUID_is_absent_witness:
  "(\<exists>device. NewWebAuthnDeviceFromCredential 1700 ''example.com'' ''john'' ''Primary''
        (Some (Credential_zero\<lparr>Credential_Authenticator :=
           \<lparr>Authenticator_AAGUID = replicate 16 0, Authenticator_SignCount = 0,
            Authenticator_CloneWarning = False, Authenticator_Attachment = []\<rparr>\<rparr>)) = Inr device
      \<and> AAGUID device = NullUUID_zero)
   \<and> uuid_Parse ''00000000-0000-0000-0000-000000000000'' = Inr UUID_zero
   \<and> ToDevice (WebAuthnDeviceData_zero\<lparr>Data_PublicKey := ''AQID'', Data_KID := ''BAU='',
        Data_AAGUID := Some ''00000000-0000-0000-0000-000000000000''\<rparr>)
      = Inr (WebAuthnDevice_zero\<lparr>PublicKey := [1, 2, 3], KID := NewBase64 [4, 5]\<rparr>)
   \<and> AAGUID (WebAuthnDevice_zero\<lparr>PublicKey := [1, 2, 3], KID := NewBase64 [4, 5]\<rparr>) = NullUUID_zero
   \<and> isl (uuid_Parse (hex_EncodeToString [1, 2, 3]))
   \<and> (\<exists>device. NewWebAuthnDeviceFromCredential 1700 ''example.com'' ''john'' ''Primary''
        (Some (Credential_zero\<lparr>Credential_Authenticator :=
           \<lparr>Authenticator_AAGUID = [1, 2, 3], Authenticator_SignCount = 0,
            Authenticator_CloneWarning = False, Authenticator_Attachment = []\<rparr>\<rparr>)) = Inr device
      \<and> AAGUID device = NullUUID_zero)"
proof -
  let ?c = "Credential_zero\<lparr>Credential_Authenticator :=
           \<lparr>Authenticator_AAGUID = replicate 16 0, Authenticator_SignCount = 0,
            Authenticator_CloneWarning = False, Authenticator_Attachment = []\<rparr>\<rparr>"
  let ?c' = "Credential_zero\<lparr>Credential_Authenticator :=
           \<lparr>Authenticator_AAGUID = [1, 2, 3], Authenticator_SignCount = 0,
            Authenticator_CloneWarning = False, Authenticator_Attachment = []\<rparr>\<rparr>"
  let ?d = "WebAuthnDeviceData_zero\<lparr>Data_PublicKey := ''AQID'', Data_KID := ''BAU='',
        Data_AAGUID := Some ''00000000-0000-0000-0000-000000000000''\<rparr>"
  let ?device = "WebAuthnDevice_zero\<lparr>PublicKey := [1, 2, 3], KID := NewBase64 [4, 5]\<rparr>"
  have bytes: "Authenticator_AAGUID (Credential_Authenticator ?c) = replicate 16 0"
    by simp
  have doc: "Data_AAGUID ?d = Some ''00000000-0000-0000-0000-000000000000''"
    by (simp add: WebAuthnDeviceData_zero_def)
  have fails: "isl (uuid_Parse (hex_EncodeToString (Authenticator_AAGUID (Credential_Authenticator ?c'))))"
    by (simp add: parse_hex_short)
  from zero_AAGUID_is_absent [of ?c 1700 "''example.com''" "''john''" "''Primary''" ?d
      "''00000000-0000-0000-0000-000000000000''" ?device ?c']
    bytes doc fails parse_dashed_zero ToDevice_zero_string
  show ?thesis
    by (simp add: parse_hex_short WebAuthnDevice_zero_def)
qed

lemma hex_low_bit:
  "hex_EncodeToString [0, 0, 0, 0, 0, 0, 0, 0, 0, 0, 0, 0, 0, 0, 0, 1]
     = ''00000000000000000000000000000001''"
  by (simp add: hex_EncodeToString_def hexByte_def hextable_def)

lemma parse_hex_low_bit:
  "uuid_Parse ''00000000000000000000000000000001''
     = Inr [0, 0, 0, 0, 0, 0, 0, 0, 0, 0, 0, 0, 0, 0, 0, 1]"
  by (simp add: uuid_Parse_def even_positions xtob_def xvalues_def)

lemma decode_empty: "base64_DecodeString [] = ([], None)"
  by (simp add: base64_DecodeString_def)

lemma ToDevice_low_bit:
  "ToDevice (WebAuthnDeviceData_zero\<lparr>Data_PublicKey := ''AQID'', Data_KID := ''BAU='',
       Data_AAGUID := Some ''00000000000000000000000000000001''\<rparr>)
   = Inr (WebAuthnDevice_zero\<lparr>PublicKey := [1, 2, 3], KID := NewBase64 [4, 5]\<rparr>)"
  by (simp add: ToDevice_def WebAuthnDeviceData_zero_def WebAuthnDevice_zero_def decode_AQID
      decode_BAU parse_hex_low_bit UUID_ID_def elems_def)


text \<open>
  C10 (as amended). The zero check \<open>aaguid.ID() != 0\<close> reads the first four bytes of a
  parsed UUID and nothing else. When they are zero, whatever the other twelve bytes are:
  the construction from a credential and the import of a document give a device without
  AAGUID, and \<open>UnmarshalYAML\<close> assigns no AAGUID, so that the receiver keeps the one it
  had (none, when the receiver is a new device).
\<close>

theorem zero_check_reads_first_four_bytes:
  assumes "uuid_Parse s = Inr uuid"
  shows "(UUID_ID uuid = 0 \<longleftrightarrow> take 4 uuid = [0, 0, 0, 0])
   \<and> (take 4 uuid = [0, 0, 0, 0] \<longrightarrow>
        (hex_EncodeToString (Authenticator_AAGUID (Credential_Authenticator c)) = s \<longrightarrow>
           (\<exists>device. NewWebAuthnDeviceFromCredential now rpid username description (Some c)
                        = Inr device \<and> AAGUID device = NullUUID_zero))
      \<and> (Data_AAGUID d = Some s \<and> ToDevice d = Inr device' \<longrightarrow> AAGUID device' = NullUUID_zero)
      \<and> (Data_AAGUID doc = Some s \<longrightarrow>
           AAGUID (snd (UnmarshalYAML (Inr doc) receiver)) = AAGUID receiver))"
proof -
  from assms have len: "length uuid = 16"
    by (rule uuid_Parse_length)
  then have check: "UUID_ID uuid = 0 \<longleftrightarrow> take 4 uuid = [0, 0, 0, 0]"
    by (rule UUID_ID_zero_iff)
  have new: "\<exists>device. NewWebAuthnDeviceFromCredential now rpid username description (Some c)
        = Inr device \<and> AAGUID device = NullUUID_zero"
    if "UUID_ID uuid = 0"
      and "hex_EncodeToString (Authenticator_AAGUID (Credential_Authenticator c)) = s"
  proof -
    obtain device where
      dev: "NewWebAuthnDeviceFromCredential now rpid username description (Some c) = Inr device"
      using New_total by blast
    from New_AAGUID_cases [OF dev] that assms have "AAGUID device = NullUUID_zero"
      by simp
    with dev show ?thesis by blast
  qed
  have imp: "AAGUID device' = NullUUID_zero"
    if "UUID_ID uuid = 0" and "Data_AAGUID d = Some s" and "ToDevice d = Inr device'"
    using ToDevice_AAGUID_cases [OF that(3)] that(1,2) assms by simp
  have yaml: "AAGUID (snd (UnmarshalYAML (Inr doc) receiver)) = AAGUID receiver"
    if "UUID_ID uuid = 0" and "Data_AAGUID doc = Some s"
    using that assms by (simp add: UnmarshalYAML_AAGUID_cases split: option.splits)
  from check new imp yaml show ?thesis
    by blast
qed


theorem zero_check_reads_first_four_bytes_witness:
  "uuid_Parse ''00000000000000000000000000000001''
     = Inr [0, 0, 0, 0, 0, 0, 0, 0, 0, 0, 0, 0, 0, 0, 0, 1]
   \<and> take 4 [0, 0, 0, 0, 0, 0, 0, 0, 0, 0, 0, 0, 0, 0, 0, 1 :: byte] = [0, 0, 0, 0]
   \<and> [0, 0, 0, 0, 0, 0, 0, 0, 0, 0, 0, 0, 0, 0, 0, 1 :: byte] \<noteq> UUID_zero
   \<and> UUID_ID [0, 0, 0, 0, 0, 0, 0, 0, 0, 0, 0, 0, 0, 0, 0, 1] = 0
   \<and> (\<exists>device. NewWebAuthnDeviceFromCredential 1700 ''example.com'' ''john'' ''Primary''
        (Some (Credential_zero\<lparr>Credential_Authenticator :=
           \<lparr>Authenticator_AAGUID = [0, 0, 0, 0, 0, 0, 0, 0, 0, 0, 0, 0, 0, 0, 0, 1],
            Authenticator_SignCount = 0, Authenticator_CloneWarning = False,
            Authenticator_Attachment = []\<rparr>\<rparr>)) = Inr device
      \<and> AAGUID device = NullUUID_zero)
   \<and> ToDevice (WebAuthnDeviceData_zero\<lparr>Data_PublicKey := ''AQID'', Data_KID := ''BAU='',
        Data_AAGUID := Some ''00000000000000000000000000000001''\<rparr>)
      = Inr (WebAuthnDevice_zero\<lparr>PublicKey := [1, 2, 3], KID := NewBase64 [4, 5]\<rparr>)
   \<and> AAGUID (WebAuthnDevice_zero\<lparr>PublicKey := [1, 2, 3], KID := NewBase64 [4, 5]\<rparr>) = NullUUID_zero
   \<and> AAGUID (snd (UnmarshalYAML
         (Inr (WebAuthnDeviceData_zero\<lparr>Data_PublicKey := ''AQID'', Data_KID := ''BAU='',
                 Data_AAGUID := Some ''00000000000000000000000000000001''\<rparr>))
         WebAuthnDevice_zero)) = NullUUID_zero"
proof -
  let ?s = "''00000000000000000000000000000001''"
  let ?u = "[0, 0, 0, 0, 0, 0, 0, 0, 0, 0, 0, 0, 0, 0, 0, 1] :: byte list"
  let ?c = "Credential_zero\<lparr>Credential_Authenticator :=
           \<lparr>Authenticator_AAGUID = ?u,
            Authenticator_SignCount = 0, Authenticator_CloneWarning = False,
            Authenticator_Attachment = []\<rparr>\<rparr>"
  let ?d = "WebAuthnDeviceData_zero\<lparr>Data_PublicKey := ''AQID'', Data_KID := ''BAU='',
        Data_AAGUID := Some ?s\<rparr>"
  let ?device = "WebAuthnDevice_zero\<lparr>PublicKey := [1, 2, 3], KID := NewBase64 [4, 5]\<rparr>"
  have first: "take 4 ?u = [0, 0, 0, 0]"
    by simp
  have rest: "?u \<noteq> UUID_zero"
    by (simp add: UUID_zero_def replicate_16)
  have bytes: "hex_EncodeToString (Authenticator_AAGUID (Credential_Authenticator ?c)) = ?s"
    by (simp add: hex_low_bit)
  have doc: "Data_AAGUID ?d = Some ?s"
    by (simp add: WebAuthnDeviceData_zero_def)
  have absent: "AAGUID ?device = NullUUID_zero" "AAGUID WebAuthnDevice_zero = NullUUID_zero"
    by (simp_all add: WebAuthnDevice_zero_def)
  from zero_check_reads_first_four_bytes [OF parse_hex_low_bit, of ?c 1700 "''example.com''"
      "''john''" "''Primary''" ?d ?device ?d WebAuthnDevice_zero]
    first rest bytes doc absent parse_hex_low_bit ToDevice_low_bit
  show ?thesis
    by simp
qed


text \<open>
  C10 as stated fails for \<open>UnmarshalYAML\<close>: on a receiver that already has an AAGUID,
  a document whose AAGUID starts with four zero bytes leaves that AAGUID in place, valid,
  and not absent.
\<close>

theorem UnmarshalYAML_keeps_AAGUID_counterexample:
  "uuid_Parse ''00000000-0000-0000-0000-000000000001''
     = Inr [0, 0, 0, 0, 0, 0, 0, 0, 0, 0, 0, 0, 0, 0, 0, 1]
   \<and> UnmarshalYAML
        (Inr (WebAuthnDeviceData_zero\<lparr>Data_AAGUID := Some ''00000000-0000-0000-0000-000000000001''\<rparr>))
        (WebAuthnDevice_zero\<lparr>AAGUID :=
           \<lparr>NullUUID_UUID = [1, 2, 3, 4, 5, 6, 7, 8, 9, 10, 11, 12, 13, 14, 15, 16],
            NullUUID_Valid = True\<rparr>\<rparr>)
      = (None, WebAuthnDevice_zero\<lparr>AAGUID :=
           \<lparr>NullUUID_UUID = [1, 2, 3, 4, 5, 6, 7, 8, 9, 10, 11, 12, 13, 14, 15, 16],
            NullUUID_Valid = True\<rparr>\<rparr>)
   \<and> AAGUID (WebAuthnDevice_zero\<lparr>AAGUID :=
           \<lparr>NullUUID_UUID = [1, 2, 3, 4, 5, 6, 7, 8, 9, 10, 11, 12, 13, 14, 15, 16],
            NullUUID_Valid = True\<rparr>\<rparr>) \<noteq> NullUUID_zero"
  by (simp add: UnmarshalYAML_def WebAuthnDeviceData_zero_def WebAuthnDevice_zero_def
      decode_empty parse_low_bit UUID_ID_def elems_def NullUUID_zero_def)

section \<open>The list of credentials: \<open>WebAuthnCredentials\<close>\<close>






section \<open>Exporting a document: \<open>ToData\<close>\<close>

lemma splitFrom_not_Nil: "splitFrom sep seg s \<noteq> []"
  by (induction s arbitrary: seg) auto

text \<open>
  C5 (as amended). \<open>ToData\<close> gives the field \<open>Transports\<close> of the document a value
  for every device: the nil slice, which has no elements, when the transport string of
  the device is empty, and the list of the segments between the commas, which is never
  empty, otherwise.
\<close>

theorem ToData_Transports:
  "(Transport d = [] \<longrightarrow> Data_Transports (ToData d) = None)
   \<and> (Transport d \<noteq> [] \<longrightarrow>
        Data_Transports (ToData d) = Some (strings_Split (Transport d) CHR '','')
        \<and> strings_Split (Transport d) CHR '','' \<noteq> [])
   \<and> (elems (Data_Transports (ToData d)) = [] \<longleftrightarrow> Transport d = [])"
  by (simp add: ToData_def Let_def elems_def strings_Split_def splitFrom_not_Nil)

theorem ToData_Transports_witness:
  "Transport WebAuthnDevice_zero = []
   \<and> Data_Transports (ToData WebAuthnDevice_zero) = None
   \<and> Transport (WebAuthnDevice_zero\<lparr>Transport := ''usb,nfc''\<rparr>) \<noteq> []
   \<and> Data_Transports (ToData (WebAuthnDevice_zero\<lparr>Transport := ''usb,nfc''\<rparr>))
       = Some [''usb'', ''nfc'']"
proof -
  have empty: "Transport WebAuthnDevice_zero = []"
    by (simp add: WebAuthnDevice_zero_def)
  have two: "Transport (WebAuthnDevice_zero\<lparr>Transport := ''usb,nfc''\<rparr>) = ''usb,nfc''"
    by simp
  have split: "strings_Split ''usb,nfc'' CHR '','' = [''usb'', ''nfc'']"
    by (simp add: strings_Split_def)
  from ToData_Transports [of WebAuthnDevice_zero]
    ToData_Transports [of "WebAuthnDevice_zero\<lparr>Transport := ''usb,nfc''\<rparr>"] empty two split
  show ?thesis
    by simp
qed

text \<open>
  C5 as stated fails: for a device with an empty transport string the field is the nil
  slice, not an empty list.
\<close>

theorem ToData_empty_transport_counterexample:
  "Transport WebAuthnDevice_zero = []
   \<and> Data_Transports (ToData WebAuthnDevice_zero) = None
   \<and> Data_Transports (ToData WebAuthnDevice_zero) \<noteq> Some []"
  by (simp add: ToData_def WebAuthnDevice_zero_def)

section \<open>The base64 text of bytes decodes to the bytes\<close>

lemma alphabetIndex_nth:
  "distinct es \<Longrightarrow> n < length es \<Longrightarrow> alphabetIndex (es ! n) es i = i + of_nat n"
proof (induction es arbitrary: n i)
  case Nil
  then show ?case by simp
next
  case (Cons e es)
  show ?case
  proof (cases n)
    case 0
    then show ?thesis by simp
  next
    case (Suc m)
    with Cons.prems have "es ! m \<noteq> e" "m < length es" "distinct es"
      by auto
    with Cons.IH [of m "i + 1"] Suc show ?thesis
      by (simp add: add.assoc)
  qed
qed

lemma distinct_encodeStd: "distinct encodeStd"
  by (simp add: encodeStd_def)

lemma length_encodeStd: "length encodeStd = 64"
  by (simp add: encodeStd_def)

lemma decodeMap_encodeStd:
  "n < 64 \<Longrightarrow> decodeMap (encodeStd ! n) = of_nat n"
  using alphabetIndex_nth [OF distinct_encodeStd, of n 0]
  by (simp add: decodeMap_def length_encodeStd)

lemma sextet_less: "unat (w AND 0x3F :: 32 word) < 64"
proof -
  have "unat (w AND 0x3F) \<le> unat (0x3F :: 32 word)"
    by (rule word_and_le1 [THEN word_le_nat_alt [THEN iffD1]])
  then show ?thesis by simp
qed

lemma decodeMap_encodeSextet:
  "decodeMap (encodeSextet val k) = ucast (drop_bit k val AND 0x3F)"
  using decodeMap_encodeStd [OF sextet_less [of "drop_bit k val"]]
  by (simp add: encodeSextet_def)

lemma sextet_not_FF: "(ucast (w AND 0x3F :: 32 word) :: byte) \<noteq> 0xFF"
proof
  assume "(ucast (w AND 0x3F :: 32 word) :: byte) = 0xFF"
  then have "bit (ucast (w AND 0x3F :: 32 word) :: byte) 7"
    by simp
  then have "bit (0x3F :: 32 word) 7"
    by (simp add: bit_ucast_iff bit_and_iff)
  then show False
    by simp
qed

lemma mask_3F: "(0x3F :: 32 word) = mask 6"
  by (simp add: mask_eq_decr_exp)

lemma bit_sextet:
  "bit (ucast (ucast (drop_bit k v AND 0x3F :: 32 word) :: byte) :: 32 word) n
     \<longleftrightarrow> n < 6 \<and> bit v (k + n)"
  by (auto simp: mask_3F bit_simps)

lemma bit_sextet0:
  "bit (ucast (ucast (v AND 0x3F :: 32 word) :: byte) :: 32 word) n \<longleftrightarrow> n < 6 \<and> bit v n"
  using bit_sextet [of 0 v n] by simp

lemma bit_shifted_sextet:
  "bit (push_bit k (ucast (ucast (drop_bit k v AND 0x3F :: 32 word) :: byte)) :: 32 word) m
     \<longleftrightarrow> k \<le> m \<and> m < k + 6 \<and> bit v m"
  by (auto simp: bit_push_bit_iff bit_sextet dest: bit_imp_le_length)

text \<open>The value that \<open>quantumBytes\<close> assembles from the sextets of \<open>v\<close>.\<close>

lemma bit_four_sextets:
  "bit (push_bit 18 (ucast (ucast (drop_bit 18 v AND 0x3F :: 32 word) :: byte)) OR
        push_bit 12 (ucast (ucast (drop_bit 12 v AND 0x3F) :: byte)) OR
        push_bit 6 (ucast (ucast (drop_bit 6 v AND 0x3F) :: byte)) OR
        ucast (ucast (v AND 0x3F) :: byte) :: 32 word) m
     \<longleftrightarrow> m < 24 \<and> bit v m"
  by (auto simp: bit_or_iff bit_shifted_sextet bit_sextet0)

lemma bit_three_sextets:
  "bit (push_bit 18 (ucast (ucast (drop_bit 18 v AND 0x3F :: 32 word) :: byte)) OR
        push_bit 12 (ucast (ucast (drop_bit 12 v AND 0x3F) :: byte)) OR
        push_bit 6 (ucast (ucast (drop_bit 6 v AND 0x3F) :: byte)) :: 32 word) m
     \<longleftrightarrow> 6 \<le> m \<and> m < 24 \<and> bit v m"
  by (auto simp: bit_or_iff bit_shifted_sextet)

lemma bit_two_sextets:
  "bit (push_bit 18 (ucast (ucast (drop_bit 18 v AND 0x3F :: 32 word) :: byte)) OR
        push_bit 12 (ucast (ucast (drop_bit 12 v AND 0x3F) :: byte)) :: 32 word) m
     \<longleftrightarrow> 12 \<le> m \<and> m < 24 \<and> bit v m"
  by (auto simp: bit_or_iff bit_shifted_sextet)

lemma bit_byte_of:
  "bit (ucast (drop_bit k (x :: 32 word)) :: byte) n \<longleftrightarrow> n < 8 \<and> bit x (k + n)"
  by (auto simp: bit_simps)

lemma byte_of_window:
  fixes x v :: "32 word"
  assumes window: "\<And>m. bit x m \<longleftrightarrow> lo \<le> m \<and> m < 24 \<and> bit v m"
    and "lo \<le> k" and "k \<le> 16"
  shows "(ucast (drop_bit k x) :: byte) = ucast (drop_bit k v)"
proof (rule bit_eqI)
  fix n
  show "bit (ucast (drop_bit k x) :: byte) n = bit (ucast (drop_bit k v) :: byte) n"
  proof (cases "n < 8")
    case True
    with assms(2,3) have "lo \<le> k + n" "k + n < 24"
      by simp_all
    with window [of "k + n"] have "bit x (k + n) = bit v (k + n)"
      by simp
    then show ?thesis
      by (simp only: bit_byte_of)
  next
    case False
    then show ?thesis
      by (simp only: bit_byte_of simp_thms)
  qed
qed

lemma quantumBytes_4:
  "quantumBytes [p, q, r, s] =
     [ucast (drop_bit 16 (push_bit 18 (ucast p) OR push_bit 12 (ucast q) OR
                          push_bit 6 (ucast r) OR ucast s :: 32 word)),
      ucast (drop_bit 8 (push_bit 18 (ucast p) OR push_bit 12 (ucast q) OR
                         push_bit 6 (ucast r) OR ucast s :: 32 word)),
      ucast (drop_bit 0 (push_bit 18 (ucast p) OR push_bit 12 (ucast q) OR
                 push_bit 6 (ucast r) OR ucast s :: 32 word))]"
  by (simp add: quantumBytes_def)

lemma quantumBytes_3:
  "quantumBytes [p, q, r] =
     [ucast (drop_bit 16 (push_bit 18 (ucast p) OR push_bit 12 (ucast q) OR
                          push_bit 6 (ucast r) :: 32 word)),
      ucast (drop_bit 8 (push_bit 18 (ucast p) OR push_bit 12 (ucast q) OR
                         push_bit 6 (ucast r) :: 32 word))]"
  by (simp add: quantumBytes_def)

lemma quantumBytes_2:
  "quantumBytes [p, q] =
     [ucast (drop_bit 16 (push_bit 18 (ucast p) OR push_bit 12 (ucast q) :: 32 word))]"
  by (simp add: quantumBytes_def)

lemma quantumBytes_four:
  "quantumBytes [ucast (drop_bit 18 v AND 0x3F :: 32 word),
                 ucast (drop_bit 12 v AND 0x3F :: 32 word),
                 ucast (drop_bit 6 v AND 0x3F :: 32 word),
                 ucast (v AND 0x3F :: 32 word)]
     = [ucast (drop_bit 16 v), ucast (drop_bit 8 v), ucast (drop_bit 0 v)]"
proof -
  let ?x = "push_bit 18 (ucast (ucast (drop_bit 18 v AND 0x3F :: 32 word) :: byte)) OR
      push_bit 12 (ucast (ucast (drop_bit 12 v AND 0x3F :: 32 word) :: byte)) OR
      push_bit 6 (ucast (ucast (drop_bit 6 v AND 0x3F :: 32 word) :: byte)) OR
      ucast (ucast (v AND 0x3F :: 32 word) :: byte) :: 32 word"
  have window: "bit ?x m \<longleftrightarrow> 0 \<le> m \<and> m < 24 \<and> bit v m" for m
    by (simp only: bit_four_sextets le0 simp_thms)
  have b16: "(ucast (drop_bit 16 ?x) :: byte) = ucast (drop_bit 16 v)"
    by (rule byte_of_window [OF window]) simp_all
  have b8: "(ucast (drop_bit 8 ?x) :: byte) = ucast (drop_bit 8 v)"
    by (rule byte_of_window [OF window]) simp_all
  have b0: "(ucast (drop_bit 0 ?x) :: byte) = ucast (drop_bit 0 v)"
    by (rule byte_of_window [OF window]) simp_all
  show ?thesis
    unfolding quantumBytes_4 b16 b8 b0 ..
qed

lemma quantumBytes_three:
  "quantumBytes [ucast (drop_bit 18 v AND 0x3F :: 32 word),
                 ucast (drop_bit 12 v AND 0x3F :: 32 word),
                 ucast (drop_bit 6 v AND 0x3F :: 32 word)]
     = [ucast (drop_bit 16 v), ucast (drop_bit 8 v)]"
proof -
  let ?x = "push_bit 18 (ucast (ucast (drop_bit 18 v AND 0x3F :: 32 word) :: byte)) OR
      push_bit 12 (ucast (ucast (drop_bit 12 v AND 0x3F :: 32 word) :: byte)) OR
      push_bit 6 (ucast (ucast (drop_bit 6 v AND 0x3F :: 32 word) :: byte)) :: 32 word"
  have window: "bit ?x m \<longleftrightarrow> 6 \<le> m \<and> m < 24 \<and> bit v m" for m
    by (simp only: bit_three_sextets le0 simp_thms)
  have b16: "(ucast (drop_bit 16 ?x) :: byte) = ucast (drop_bit 16 v)"
    by (rule byte_of_window [OF window]) simp_all
  have b8: "(ucast (drop_bit 8 ?x) :: byte) = ucast (drop_bit 8 v)"
    by (rule byte_of_window [OF window]) simp_all
  show ?thesis
    unfolding quantumBytes_3 b16 b8 ..
qed

lemma quantumBytes_two:
  "quantumBytes [ucast (drop_bit 18 v AND 0x3F :: 32 word),
                 ucast (drop_bit 12 v AND 0x3F :: 32 word)]
     = [ucast (drop_bit 16 v)]"
proof -
  let ?x = "push_bit 18 (ucast (ucast (drop_bit 18 v AND 0x3F :: 32 word) :: byte)) OR
      push_bit 12 (ucast (ucast (drop_bit 12 v AND 0x3F :: 32 word) :: byte)) :: 32 word"
  have window: "bit ?x m \<longleftrightarrow> 12 \<le> m \<and> m < 24 \<and> bit v m" for m
    by (simp only: bit_two_sextets le0 simp_thms)
  have b16: "(ucast (drop_bit 16 ?x) :: byte) = ucast (drop_bit 16 v)"
    by (rule byte_of_window [OF window]) simp_all
  show ?thesis
    unfolding quantumBytes_2 b16 ..
qed

lemma bit_packed:
  "bit (push_bit 16 (ucast (a :: byte)) OR push_bit 8 (ucast (b :: byte)) OR ucast (c :: byte) :: 32 word) m
     \<longleftrightarrow> (16 \<le> m \<and> m < 24 \<and> bit a (m - 16)) \<or> (8 \<le> m \<and> m < 16 \<and> bit b (m - 8))
          \<or> (m < 8 \<and> bit c m)"
  by (auto simp: bit_simps dest: bit_imp_le_length)

lemma byte_of_packed:
  fixes a b c :: byte
  shows "(ucast (drop_bit 16 (push_bit 16 (ucast a) OR push_bit 8 (ucast b) OR ucast c :: 32 word)) :: byte) = a"
    and "(ucast (drop_bit 8 (push_bit 16 (ucast a) OR push_bit 8 (ucast b) OR ucast c :: 32 word)) :: byte) = b"
    and "(ucast (drop_bit 0 (push_bit 16 (ucast a) OR push_bit 8 (ucast b) OR ucast c :: 32 word)) :: byte) = c"
proof -
  let ?v = "push_bit 16 (ucast a) OR push_bit 8 (ucast b) OR ucast c :: 32 word"
  show "(ucast (drop_bit 16 ?v) :: byte) = a"
  proof (rule bit_eqI)
    fix n
    show "bit (ucast (drop_bit 16 ?v) :: byte) n = bit a n"
      unfolding bit_byte_of bit_packed by (auto dest: bit_imp_le_length)
  qed
  show "(ucast (drop_bit 8 ?v) :: byte) = b"
  proof (rule bit_eqI)
    fix n
    show "bit (ucast (drop_bit 8 ?v) :: byte) n = bit b n"
      unfolding bit_byte_of bit_packed by (auto dest: bit_imp_le_length)
  qed
  show "(ucast (drop_bit 0 ?v) :: byte) = c"
  proof (rule bit_eqI)
    fix n
    show "bit (ucast (drop_bit 0 ?v) :: byte) n = bit c n"
      unfolding bit_byte_of bit_packed by (auto dest: bit_imp_le_length)
  qed
qed

lemma decodeMap_pad: "decodeMap CHR ''='' = 0xFF"
  by (simp add: decodeMap_def encodeStd_def)

lemma decode_full_quantum:
  "decodeFrom [] (encodeSextet v 18 # encodeSextet v 12 # encodeSextet v 6 # encodeSextet v 0 # src)
     = (case decodeFrom [] src of
          (out, err) \<Rightarrow> ([ucast (drop_bit 16 v), ucast (drop_bit 8 v), ucast (drop_bit 0 v)] @ out, err))"
  using quantumBytes_four [of v]
  by (simp add: decodeMap_encodeSextet sextet_not_FF)

lemma decode_three_sextets:
  "decodeFrom [] [encodeSextet v 18, encodeSextet v 12, encodeSextet v 6, CHR ''='']
     = ([ucast (drop_bit 16 v), ucast (drop_bit 8 v)], None)"
  using quantumBytes_three [of v]
  by (simp add: decodeMap_encodeSextet sextet_not_FF decodeMap_pad afterPadding_def)

lemma decode_two_sextets:
  "decodeFrom [] [encodeSextet v 18, encodeSextet v 12, CHR ''='', CHR ''='']
     = ([ucast (drop_bit 16 v)], None)"
  using quantumBytes_two [of v]
  by (simp add: decodeMap_encodeSextet sextet_not_FF decodeMap_pad afterPadding_def)

lemma byte_of_packed_two:
  fixes a b :: byte
  shows "(ucast (drop_bit 16 (push_bit 16 (ucast a) OR push_bit 8 (ucast b) :: 32 word)) :: byte) = a"
    and "(ucast (drop_bit 8 (push_bit 16 (ucast a) OR push_bit 8 (ucast b) :: 32 word)) :: byte) = b"
proof -
  have "(push_bit 16 (ucast a) OR push_bit 8 (ucast b) :: 32 word)
      = push_bit 16 (ucast a) OR push_bit 8 (ucast b) OR ucast (0 :: byte)"
    by simp
  then show
    "(ucast (drop_bit 16 (push_bit 16 (ucast a) OR push_bit 8 (ucast b) :: 32 word)) :: byte) = a"
    "(ucast (drop_bit 8 (push_bit 16 (ucast a) OR push_bit 8 (ucast b) :: 32 word)) :: byte) = b"
    by (simp_all only: byte_of_packed)
qed

lemma byte_of_packed_one:
  fixes a :: byte
  shows "(ucast (drop_bit 16 (push_bit 16 (ucast a) :: 32 word)) :: byte) = a"
  using byte_of_packed(1) [of a 0 0] by simp

lemma base64_round_trip:
  "base64_DecodeString (base64_EncodeToString src) = (src, None)"
  unfolding base64_DecodeString_def
proof (induction src rule: base64_EncodeToString.induct)
  case (1 a b c src)
  let ?v = "push_bit 16 (ucast a) OR push_bit 8 (ucast b) OR ucast c :: 32 word"
  have "base64_EncodeToString (a # b # c # src)
      = encodeSextet ?v 18 # encodeSextet ?v 12 # encodeSextet ?v 6 # encodeSextet ?v 0
        # base64_EncodeToString src"
    by (simp add: Let_def)
  then have "decodeFrom [] (base64_EncodeToString (a # b # c # src))
      = (case decodeFrom [] (base64_EncodeToString src) of
          (out, err) \<Rightarrow> ([ucast (drop_bit 16 ?v), ucast (drop_bit 8 ?v), ucast (drop_bit 0 ?v)] @ out, err))"
    by (simp only: decode_full_quantum)
  also have "\<dots> = ([a, b, c] @ src, None)"
    by (simp only: "1.IH" byte_of_packed prod.case)
  finally show ?case
    by simp
next
  case (2 a b)
  let ?v = "push_bit 16 (ucast a) OR push_bit 8 (ucast b) :: 32 word"
  have "base64_EncodeToString [a, b]
      = [encodeSextet ?v 18, encodeSextet ?v 12, encodeSextet ?v 6, CHR ''='']"
    by (simp add: Let_def)
  then have "decodeFrom [] (base64_EncodeToString [a, b])
      = ([ucast (drop_bit 16 ?v), ucast (drop_bit 8 ?v)], None)"
    by (simp only: decode_three_sextets)
  then show ?case
    by (simp only: byte_of_packed_two)
next
  case (3 a)
  let ?v = "push_bit 16 (ucast a) :: 32 word"
  have "base64_EncodeToString [a] = [encodeSextet ?v 18, encodeSextet ?v 12, CHR ''='', CHR ''='']"
    by (simp add: Let_def)
  then have "decodeFrom [] (base64_EncodeToString [a]) = ([ucast (drop_bit 16 ?v)], None)"
    by (simp only: decode_two_sextets)
  then show ?case
    by (simp only: byte_of_packed_one)
next
  case 4
  show ?case
    by simp
qed

section \<open>The text of a UUID parses to the UUID\<close>

lemma upt_16: "[0..<16] = [0, 1, 2, 3, 4, 5, 6, 7, 8, 9, 10, 11, 12, 13, 14, 15]"
  by code_simp

lemma xvalues_hextable:
  assumes "n < 16"
  shows "xvalues (hextable ! n) = of_nat n"
proof -
  from assms have "n \<in> set [0..<16]"
    by simp
  then have "n \<in> set [0, 1, 2, 3, 4, 5, 6, 7, 8, 9, 10, 11, 12, 13, 14, 15 :: nat]"
    by (simp only: upt_16)
  then show ?thesis
    by (auto simp: xvalues_def hextable_def)
qed

lemma mask_0F: "(0x0f :: byte) = mask 4"
  by (simp add: mask_eq_decr_exp)

lemma nibbles_less:
  fixes v :: byte
  shows "unat (drop_bit 4 v) < 16" and "unat (v AND 0x0f) < 16"
proof -
  have "unat v < 256"
    using unsigned_less [of v, where ?'a = nat] by simp
  then show "unat (drop_bit 4 v) < 16"
    by (simp add: drop_bit_eq_div unat_div)
  have "unat (v AND 0x0f) \<le> unat (0x0f :: byte)"
    by (rule word_and_le1 [THEN word_le_nat_alt [THEN iffD1]])
  then show "unat (v AND 0x0f) < 16"
    by simp
qed

lemma join_nibbles:
  fixes v :: byte
  shows "push_bit 4 (drop_bit 4 v) OR (v AND 0x0f) = v"
proof (rule bit_eqI)
  fix n
  show "bit (push_bit 4 (drop_bit 4 v) OR (v AND 0x0f)) n = bit v n"
    by (auto simp: mask_0F bit_simps dest: bit_imp_le_length)
qed

lemma xtob_hexByte:
  "xtob (hextable ! unat (drop_bit 4 v)) (hextable ! unat (v AND 0x0f)) = (v, True)"
proof -
  have hi: "xvalues (hextable ! unat (drop_bit 4 v)) = drop_bit 4 v"
    using xvalues_hextable [OF nibbles_less(1), of v] by simp
  have lo: "xvalues (hextable ! unat (v AND 0x0f)) = v AND 0x0f"
    using xvalues_hextable [OF nibbles_less(2), of v] by simp
  have "drop_bit 4 v \<noteq> 255"
    using nibbles_less(1) [of v] by auto
  moreover have "v AND 0x0f \<noteq> 255"
    using nibbles_less(2) [of v] by auto
  ultimately show ?thesis
    unfolding xtob_def Let_def hi lo join_nibbles by simp
qed

lemma uuid_round_trip:
  assumes "length uuid = 16"
  shows "uuid_Parse (UUID_String uuid) = Inr uuid"
proof -
  define h where "h v = hextable ! unat (drop_bit 4 v)" for v :: byte
  define l where "l v = hextable ! unat (v AND 0x0f)" for v :: byte
  have digits: "hexByte v = [h v, l v]" for v
    by (simp only: hexByte_def h_def l_def)
  have parsed: "xtob (h v) (l v) = (v, True)" for v
    unfolding h_def l_def by (rule xtob_hexByte)
  from assms obtain b0 b1 b2 b3 b4 b5 b6 b7 b8 b9 b10 b11 b12 b13 b14 b15 where
    uuid: "uuid = [b0, b1, b2, b3, b4, b5, b6, b7, b8, b9, b10, b11, b12, b13, b14, b15]"
    by (auto simp: numeral_eq_Suc length_Suc_conv)
  have formatted: "UUID_String uuid =
      [h b0, l b0, h b1, l b1, h b2, l b2, h b3, l b3, CHR ''-'',
       h b4, l b4, h b5, l b5, CHR ''-'', h b6, l b6, h b7, l b7, CHR ''-'',
       h b8, l b8, h b9, l b9, CHR ''-'',
       h b10, l b10, h b11, l b11, h b12, l b12, h b13, l b13, h b14, l b14, h b15, l b15]"
    by (simp add: uuid UUID_String_def hex_EncodeToString_def digits)
  show ?thesis
    unfolding formatted
    by (simp add: uuid uuid_Parse_def parseDashed_def parsed)
qed

section \<open>Joining the segments of a string gives the string\<close>

lemma Join_splitFrom:
  "strings_Join (splitFrom sep seg s) [sep] = seg @ s"
proof (induction s arbitrary: seg)
  case Nil
  then show ?case by simp
next
  case (Cons c cs)
  show ?case
  proof (cases "c = sep")
    case True
    obtain x xs where rest: "splitFrom sep [] cs = x # xs"
      using splitFrom_not_Nil [of sep "[]" cs] by (cases "splitFrom sep [] cs") auto
    from Cons.IH [of "[]"] rest have "strings_Join (x # xs) [sep] = cs"
      by simp
    with True rest show ?thesis
      by simp
  next
    case False
    with Cons.IH [of "seg @ [c]"] show ?thesis
      by simp
  qed
qed

lemma Join_Split: "strings_Join (strings_Split s sep) [sep] = s"
  by (simp add: strings_Split_def Join_splitFrom)

section \<open>From a device to a document and back\<close>

lemma encode_123: "base64_EncodeToString [1, 2, 3] = ''AQID''"
  by (simp add: encodeSextet_def encodeStd_def)

lemma encode_45: "base64_EncodeToString [4, 5] = ''BAU=''"
  by (simp add: encodeSextet_def encodeStd_def)

lemma string_1_16:
  "UUID_String [1, 2, 3, 4, 5, 6, 7, 8, 9, 10, 11, 12, 13, 14, 15, 16]
     = ''01020304-0506-0708-090a-0b0c0d0e0f10''"
  by (simp add: UUID_String_def hex_EncodeToString_def hexByte_def hextable_def)

lemma parse_1_16:
  "uuid_Parse ''01020304-0506-0708-090a-0b0c0d0e0f10''
     = Inr [1, 2, 3, 4, 5, 6, 7, 8, 9, 10, 11, 12, 13, 14, 15, 16]"
  by (simp add: uuid_Parse_def parseDashed_def xtob_def xvalues_def)

lemma ID_1_16: "UUID_ID [1, 2, 3, 4, 5, 6, 7, 8, 9, 10, 11, 12, 13, 14, 15, 16] = 0x01020304"
  by (simp add: UUID_ID_def)

lemma split_usb_nfc: "strings_Split ''usb,nfc'' CHR '','' = [''usb'', ''nfc'']"
  by (simp add: strings_Split_def)

lemma ToData_example:
  "ToData (WebAuthnDevice_zero\<lparr>ID := 7, CreatedAt := 1600,
       LastUsedAt := \<lparr>NullTime_Time = 1700, NullTime_Valid = True\<rparr>,
       RPID := ''example.com'', Username := ''john'', Description := ''Primary'',
       KID := NewBase64 [4, 5],
       AAGUID := \<lparr>NullUUID_UUID = [1, 2, 3, 4, 5, 6, 7, 8, 9, 10, 11, 12, 13, 14, 15, 16],
                  NullUUID_Valid = True\<rparr>,
       AttestationType := ''packed'', Attachment := ''cross-platform'',
       Transport := ''usb,nfc'', SignCount := 9, CloneWarning := True, Discoverable := True,
       Present := True, Verified := True, BackupEligible := True, BackupState := True,
       PublicKey := [1, 2, 3]\<rparr>)
   = \<lparr>Data_ID = 7, Data_CreatedAt = 1600, Data_LastUsedAt = Some 1700,
      Data_RPID = ''example.com'', Data_Username = ''john'', Data_Description = ''Primary'',
      Data_KID = ''BAU='', Data_AAGUID = Some ''01020304-0506-0708-090a-0b0c0d0e0f10'',
      Data_AttestationType = ''packed'', Data_Attachment = ''cross-platform'',
      Data_Transports = Some [''usb'', ''nfc''], Data_SignCount = 9,
      Data_CloneWarning = True, Data_Discoverable = False, Data_Present = True,
      Data_Verified = True, Data_BackupEligible = True, Data_BackupState = True,
      Data_PublicKey = ''AQID''\<rparr>"
  by (simp add: ToData_def WebAuthnDevice_zero_def DataValueLastUsedAt_def
      DataValueAAGUID_def Base64_String_def encode_123 encode_45 string_1_16 split_usb_nfc
      del: base64_EncodeToString.simps)

lemma ToDevice_example:
  "ToDevice \<lparr>Data_ID = 7, Data_CreatedAt = 1600, Data_LastUsedAt = Some 1700,
      Data_RPID = ''example.com'', Data_Username = ''john'', Data_Description = ''Primary'',
      Data_KID = ''BAU='', Data_AAGUID = Some ''01020304-0506-0708-090a-0b0c0d0e0f10'',
      Data_AttestationType = ''packed'', Data_Attachment = ''cross-platform'',
      Data_Transports = Some [''usb'', ''nfc''], Data_SignCount = 9,
      Data_CloneWarning = True, Data_Discoverable = False, Data_Present = True,
      Data_Verified = True, Data_BackupEligible = True, Data_BackupState = True,
      Data_PublicKey = ''AQID''\<rparr>
   = Inr (WebAuthnDevice_zero\<lparr>ID := 0, CreatedAt := 1600,
       LastUsedAt := \<lparr>NullTime_Time = 1700, NullTime_Valid = True\<rparr>,
       RPID := ''example.com'', Username := ''john'', Description := ''Primary'',
       KID := NewBase64 [4, 5],
       AAGUID := \<lparr>NullUUID_UUID = [1, 2, 3, 4, 5, 6, 7, 8, 9, 10, 11, 12, 13, 14, 15, 16],
                  NullUUID_Valid = True\<rparr>,
       AttestationType := ''packed'', Attachment := ''cross-platform'',
       Transport := ''usb,nfc'', SignCount := 9, CloneWarning := True, Discoverable := False,
       Present := True, Verified := True, BackupEligible := True, BackupState := True,
       PublicKey := [1, 2, 3]\<rparr>)"
  by (simp add: ToDevice_def WebAuthnDevice_zero_def decode_AQID decode_BAU parse_1_16 ID_1_16
      elems_def)

text \<open>
  What a round trip through the document does to a device whose last-used time and
  AAGUID are either valid or the zero value, the AAGUID being of sixteen bytes of which
  the first four are not all zero: the id and the discoverable flag are reset, and every
  other field comes back as it was.
\<close>

lemma ToDevice_ToData:
  assumes "NullTime_Valid (LastUsedAt d) \<or> LastUsedAt d = NullTime_zero"
    and "AAGUID d = NullUUID_zero
         \<or> NullUUID_Valid (AAGUID d) \<and> length (NullUUID_UUID (AAGUID d)) = 16
             \<and> UUID_ID (NullUUID_UUID (AAGUID d)) \<noteq> 0"
  shows "ToDevice (ToData d) = Inr (d\<lparr>ID := 0, Discoverable := False\<rparr>)"
proof -
  obtain kid where kid: "KID d = NewBase64 kid"
    by (cases "KID d") auto
  have transport: "strings_Join (elems (Data_Transports (ToData d))) '','' = Transport d"
    by (simp add: ToData_def Let_def elems_def Join_Split)
  have lastUsed: "(case Data_LastUsedAt (ToData d) of
                     None \<Rightarrow> NullTime_zero
                   | Some t \<Rightarrow> \<lparr>NullTime_Time = t, NullTime_Valid = True\<rparr>) = LastUsedAt d"
    using assms(1) by (cases "LastUsedAt d") (auto simp: ToData_def Let_def DataValueLastUsedAt_def NullTime_zero_def)
  show ?thesis
    using assms(2) kid transport lastUsed
    by (cases d; cases "AAGUID d")
       (auto simp: ToData_def ToDevice_def Let_def DataValueAAGUID_def DataValueLastUsedAt_def
          Base64_String_def base64_round_trip uuid_round_trip WebAuthnDevice_zero_def
          NullUUID_zero_def NullTime_zero_def elems_def split: option.splits)
qed

text \<open>
  C2. The claim is that \<open>ToDevice (ToData d)\<close> is \<open>d\<close> in every field but the id,
  the discoverable flag included. \<open>ToData\<close> does not copy \<open>Discoverable\<close> into the
  document, although the document has the field and \<open>ToDevice\<close> reads it: a device that
  is discoverable comes back not discoverable. Every other field of this device but the
  id comes back as it was (as lemma \<open>ToDevice_ToData\<close> shows in general).
\<close>

theorem round_trip_loses_Discoverable:
  "ToDevice (ToData (WebAuthnDevice_zero\<lparr>ID := 7, CreatedAt := 1600,
       LastUsedAt := \<lparr>NullTime_Time = 1700, NullTime_Valid = True\<rparr>,
       RPID := ''example.com'', Username := ''john'', Description := ''Primary'',
       KID := NewBase64 [4, 5],
       AAGUID := \<lparr>NullUUID_UUID = [1, 2, 3, 4, 5, 6, 7, 8, 9, 10, 11, 12, 13, 14, 15, 16],
                  NullUUID_Valid = True\<rparr>,
       AttestationType := ''packed'', Attachment := ''cross-platform'',
       Transport := ''usb,nfc'', SignCount := 9, CloneWarning := True, Discoverable := True,
       Present := True, Verified := True, BackupEligible := True, BackupState := True,
       PublicKey := [1, 2, 3]\<rparr>))
   = Inr (WebAuthnDevice_zero\<lparr>ID := 0, CreatedAt := 1600,
       LastUsedAt := \<lparr>NullTime_Time = 1700, NullTime_Valid = True\<rparr>,
       RPID := ''example.com'', Username := ''john'', Description := ''Primary'',
       KID := NewBase64 [4, 5],
       AAGUID := \<lparr>NullUUID_UUID = [1, 2, 3, 4, 5, 6, 7, 8, 9, 10, 11, 12, 13, 14, 15, 16],
                  NullUUID_Valid = True\<rparr>,
       AttestationType := ''packed'', Attachment := ''cross-platform'',
       Transport := ''usb,nfc'', SignCount := 9, CloneWarning := True, Discoverable := False,
       Present := True, Verified := True, BackupEligible := True, BackupState := True,
       PublicKey := [1, 2, 3]\<rparr>)"
  by (simp only: ToData_example ToDevice_example)

section \<open>Properties of the schema migration\<close>

lemma newRow_carried: "newRow n r = Inr row \<Longrightarrow> carried r row \<and> row_id row = n"
  by (auto simp: newRow_def andThen_def notNull_def carried_def split: option.splits)

lemma insertRow_Inr:
  assumes "insertRow r db = Inr db'"
  shows "\<exists>rows row. webauthn_devices db = Some rows \<and> webauthn_devices db' = Some (rows @ [row])
           \<and> carried r row
           \<and> webauthn_credentials db' = webauthn_credentials db
           \<and> webauthn_users db' = webauthn_users db"
  using assms
  by (auto simp: insertRow_def Let_def andThen_def split: option.splits sum.splits if_splits
      dest: newRow_carried)

lemma insertRows_Inr:
  "insertRows rs db = Inr db' \<Longrightarrow> webauthn_devices db = Some rows \<Longrightarrow>
   \<exists>new. webauthn_devices db' = Some (rows @ new) \<and> list_all2 carried rs new
         \<and> webauthn_credentials db' = webauthn_credentials db
         \<and> webauthn_users db' = webauthn_users db"
proof (induction rs arbitrary: db rows)
  case Nil
  then show ?case by simp
next
  case (Cons r rs)
  from Cons.prems(1) obtain db1 where
    one: "insertRow r db = Inr db1" and rest: "insertRows rs db1 = Inr db'"
    by (auto simp: andThen_def split: sum.splits)
  from insertRow_Inr [OF one] Cons.prems(2) obtain row where
    row: "webauthn_devices db1 = Some (rows @ [row])" "carried r row"
      "webauthn_credentials db1 = webauthn_credentials db"
      "webauthn_users db1 = webauthn_users db"
    by auto
  from Cons.IH [OF rest row(1)] obtain new where
    "webauthn_devices db' = Some ((rows @ [row]) @ new)" "list_all2 carried rs new"
    "webauthn_credentials db' = webauthn_credentials db1"
    "webauthn_users db' = webauthn_users db1"
    by auto
  with row show ?case
    by (intro exI [of _ "row # new"]) simp
qed

text \<open>
  C9. When the script has run through on a database that has no device table yet, the
  device table holds exactly one row for each row of \<open>webauthn_credentials\<close> whose
  \<open>legacy\<close> was true, in the same order, with the twelve copied columns unchanged; and
  neither \<open>webauthn_credentials\<close> nor \<open>webauthn_users\<close> exists any more. (The
  \<open>id\<close> of a row is new, from the sequence of the device table.)
\<close>

theorem migration_copies_legacy_rows:
  assumes "webauthn_devices db = None" and "migration db = Inr db'"
  shows "\<exists>credentials rows.
           webauthn_credentials db = Some credentials
         \<and> webauthn_devices db' = Some rows
         \<and> list_all2 carried (filter (\<lambda>r. legacy r = Some True) credentials) rows
         \<and> webauthn_credentials db' = None
         \<and> webauthn_users db' = None"
proof -
  let ?db0 = "db\<lparr>webauthn_devices := Some [], webauthn_devices_id_seq := 1\<rparr>"
  from assms obtain db1 db2 db3 where
    i1: "createUniqueIndex ''webauthn_devices_kid_key'' row_kid ?db0 = Inr db1" and
    i2: "createUniqueIndex ''webauthn_devices_lookup_key'' lookup_key db1 = Inr db2" and
    ins: "insertSelect db2 = Inr db3" and
    drop: "db' = db3\<lparr>webauthn_credentials := None, webauthn_users := None\<rparr>"
    by (auto simp: migration_def createTableIfNotExists_def andThen_def
        dropCredentialsIfExists_def dropUsersIfExists_def split: sum.splits)
  from i1 have db1: "db1 = ?db0\<lparr>indexes := ''webauthn_devices_kid_key'' # indexes db\<rparr>"
    by (auto simp: createUniqueIndex_def split: if_splits)
  from i2 db1 have db2: "webauthn_devices db2 = Some []"
      "webauthn_credentials db2 = webauthn_credentials db"
    by (auto simp: createUniqueIndex_def split: if_splits)
  from ins obtain credentials where
    creds: "webauthn_credentials db2 = Some credentials" and
    rows: "insertRows (filter (\<lambda>r. legacy r = Some True) credentials) db2 = Inr db3"
    by (auto simp: insertSelect_def split: option.splits)
  from insertRows_Inr [OF rows db2(1)] obtain new where
    "webauthn_devices db3 = Some new"
    "list_all2 carried (filter (\<lambda>r. legacy r = Some True) credentials) new"
    by auto
  with creds db2 drop show ?thesis
    by simp
qed

theorem migration_copies_legacy_rows_witness:
  "migration
     (\<lparr>webauthn_credentials = Some
         [\<lparr>legacy_created_at = Some 100, legacy_last_used_at = Some 200, legacy_rpid = Some ''example.com'',
          legacy_username = Some ''john'', legacy_description = Some ''Primary'',
          legacy_kid = Some ''a2lkMQ=='', legacy_public_key = Some [1, 2, 3],
          legacy_attestation_type = Some ''packed'', legacy_transport = Some ''usb'',
          legacy_aaguid = Some ''01020304-0506-0708-090a-0b0c0d0e0f10'', legacy_sign_count = Some 5,
          legacy_clone_warning = Some False, legacy = Some True\<rparr>,
          \<lparr>legacy_created_at = Some 110, legacy_last_used_at = None, legacy_rpid = Some ''example.com'',
          legacy_username = Some ''john'', legacy_description = Some ''Backup'',
          legacy_kid = Some ''a2lkMg=='', legacy_public_key = Some [4, 5, 6],
          legacy_attestation_type = Some ''packed'', legacy_transport = Some ''nfc'',
          legacy_aaguid = Some ''01020304-0506-0708-090a-0b0c0d0e0f10'', legacy_sign_count = Some 0,
          legacy_clone_warning = Some False, legacy = Some False\<rparr>,
          \<lparr>legacy_created_at = Some 120, legacy_last_used_at = None, legacy_rpid = None,
          legacy_username = Some ''harry'', legacy_description = Some ''Primary'',
          legacy_kid = Some ''a2lkMw=='', legacy_public_key = Some [7, 8, 9],
          legacy_attestation_type = Some ''fido-u2f'', legacy_transport = Some ''usb,nfc'',
          legacy_aaguid = Some ''00000000-0000-0000-0000-000000000000'', legacy_sign_count = Some 9,
          legacy_clone_warning = Some True, legacy = Some True\<rparr>],
        webauthn_users = Some [''john'', ''harry''], webauthn_devices = None,
        webauthn_devices_id_seq = 0, indexes = []\<rparr> :: (unit, string) database)
   = Inr
     \<lparr>webauthn_credentials = None, webauthn_users = None,
        webauthn_devices = Some
         [\<lparr>row_id = 1, row_created_at = 100, row_last_used_at = Some 200, row_rpid = Some ''example.com'',
          row_username = ''john'', row_description = ''Primary'', row_kid = ''a2lkMQ=='',
          row_public_key = [1, 2, 3], row_attestation_type = Some ''packed'',
          row_transport = Some ''usb'', row_aaguid = ''01020304-0506-0708-090a-0b0c0d0e0f10'',
          row_sign_count = Some 5, row_clone_warning = False\<rparr>,
          \<lparr>row_id = 2, row_created_at = 120, row_last_used_at = None, row_rpid = None,
          row_username = ''harry'', row_description = ''Primary'', row_kid = ''a2lkMw=='',
          row_public_key = [7, 8, 9], row_attestation_type = Some ''fido-u2f'',
          row_transport = Some ''usb,nfc'', row_aaguid = ''00000000-0000-0000-0000-000000000000'',
          row_sign_count = Some 9, row_clone_warning = True\<rparr>],
        webauthn_devices_id_seq = 3,
        indexes = [''webauthn_devices_lookup_key'', ''webauthn_devices_kid_key'']\<rparr>
   \<and> list_all2 carried
       [\<lparr>legacy_created_at = Some 100, legacy_last_used_at = Some 200, legacy_rpid = Some ''example.com'',
        legacy_username = Some ''john'', legacy_description = Some ''Primary'',
        legacy_kid = Some ''a2lkMQ=='', legacy_public_key = Some [1, 2, 3],
        legacy_attestation_type = Some ''packed'', legacy_transport = Some ''usb'',
        legacy_aaguid = Some ''01020304-0506-0708-090a-0b0c0d0e0f10'', legacy_sign_count = Some 5,
        legacy_clone_warning = Some False, legacy = Some True\<rparr> :: legacy_row,
        \<lparr>legacy_created_at = Some 120, legacy_last_used_at = None, legacy_rpid = None,
        legacy_username = Some ''harry'', legacy_description = Some ''Primary'',
        legacy_kid = Some ''a2lkMw=='', legacy_public_key = Some [7, 8, 9],
        legacy_attestation_type = Some ''fido-u2f'', legacy_transport = Some ''usb,nfc'',
        legacy_aaguid = Some ''00000000-0000-0000-0000-000000000000'', legacy_sign_count = Some 9,
        legacy_clone_warning = Some True, legacy = Some True\<rparr>]
       [\<lparr>row_id = 1, row_created_at = 100, row_last_used_at = Some 200, row_rpid = Some ''example.com'',
        row_username = ''john'', row_description = ''Primary'', row_kid = ''a2lkMQ=='',
        row_public_key = [1, 2, 3], row_attestation_type = Some ''packed'',
        row_transport = Some ''usb'', row_aaguid = ''01020304-0506-0708-090a-0b0c0d0e0f10'',
        row_sign_count = Some 5, row_clone_warning = False\<rparr>,
        \<lparr>row_id = 2, row_created_at = 120, row_last_used_at = None, row_rpid = None,
        row_username = ''harry'', row_description = ''Primary'', row_kid = ''a2lkMw=='',
        row_public_key = [7, 8, 9], row_attestation_type = Some ''fido-u2f'',
        row_transport = Some ''usb,nfc'', row_aaguid = ''00000000-0000-0000-0000-000000000000'',
        row_sign_count = Some 9, row_clone_warning = True\<rparr>]"
proof -
  let ?db = "\<lparr>webauthn_credentials = Some
       [\<lparr>legacy_created_at = Some 100, legacy_last_used_at = Some 200, legacy_rpid = Some ''example.com'',
        legacy_username = Some ''john'', legacy_description = Some ''Primary'',
        legacy_kid = Some ''a2lkMQ=='', legacy_public_key = Some [1, 2, 3],
        legacy_attestation_type = Some ''packed'', legacy_transport = Some ''usb'',
        legacy_aaguid = Some ''01020304-0506-0708-090a-0b0c0d0e0f10'', legacy_sign_count = Some 5,
        legacy_clone_warning = Some False, legacy = Some True\<rparr>,
        \<lparr>legacy_created_at = Some 110, legacy_last_used_at = None, legacy_rpid = Some ''example.com'',
        legacy_username = Some ''john'', legacy_description = Some ''Backup'',
        legacy_kid = Some ''a2lkMg=='', legacy_public_key = Some [4, 5, 6],
        legacy_attestation_type = Some ''packed'', legacy_transport = Some ''nfc'',
        legacy_aaguid = Some ''01020304-0506-0708-090a-0b0c0d0e0f10'', legacy_sign_count = Some 0,
        legacy_clone_warning = Some False, legacy = Some False\<rparr>,
        \<lparr>legacy_created_at = Some 120, legacy_last_used_at = None, legacy_rpid = None,
        legacy_username = Some ''harry'', legacy_description = Some ''Primary'',
        legacy_kid = Some ''a2lkMw=='', legacy_public_key = Some [7, 8, 9],
        legacy_attestation_type = Some ''fido-u2f'', legacy_transport = Some ''usb,nfc'',
        legacy_aaguid = Some ''00000000-0000-0000-0000-000000000000'', legacy_sign_count = Some 9,
        legacy_clone_warning = Some True, legacy = Some True\<rparr>],
      webauthn_users = Some [''john'', ''harry''], webauthn_devices = None,
      webauthn_devices_id_seq = 0, indexes = []\<rparr> :: (unit, string) database"
  let ?db' = "\<lparr>webauthn_credentials = None, webauthn_users = None,
      webauthn_devices = Some
       [\<lparr>row_id = 1, row_created_at = 100, row_last_used_at = Some 200, row_rpid = Some ''example.com'',
        row_username = ''john'', row_description = ''Primary'', row_kid = ''a2lkMQ=='',
        row_public_key = [1, 2, 3], row_attestation_type = Some ''packed'',
        row_transport = Some ''usb'', row_aaguid = ''01020304-0506-0708-090a-0b0c0d0e0f10'',
        row_sign_count = Some 5, row_clone_warning = False\<rparr>,
        \<lparr>row_id = 2, row_created_at = 120, row_last_used_at = None, row_rpid = None,
        row_username = ''harry'', row_description = ''Primary'', row_kid = ''a2lkMw=='',
        row_public_key = [7, 8, 9], row_attestation_type = Some ''fido-u2f'',
        row_transport = Some ''usb,nfc'', row_aaguid = ''00000000-0000-0000-0000-000000000000'',
        row_sign_count = Some 9, row_clone_warning = True\<rparr>],
      webauthn_devices_id_seq = 3,
      indexes = [''webauthn_devices_lookup_key'', ''webauthn_devices_kid_key'']\<rparr> :: (unit, string) database"
  have fresh: "webauthn_devices ?db = None"
    by simp
  have run: "migration ?db = Inr ?db'"
    by (simp add: migration_def createTableIfNotExists_def createUniqueIndex_def
        insertSelect_def insertRow_def newRow_def notNull_def andThen_def lookup_key_def
        dropCredentialsIfExists_def dropUsersIfExists_def)
  from migration_copies_legacy_rows [OF fresh run] run show ?thesis
    by simp
qed

text \<open>
  The script does run through when the legacy table exists, the device table and the two
  index names do not, and the selected rows are complete and have distinct keys.
\<close>

lemma newRow_complete:
  "complete r \<Longrightarrow> \<exists>row. newRow n r = Inr row"
  by (auto simp: complete_def newRow_def andThen_def notNull_def)

lemma carried_keys:
  "carried r row \<Longrightarrow> legacy_kid r = Some (row_kid row)
     \<and> legacy_lookup_key r = (Some (row_username row), Some (row_description row))"
  by (simp add: carried_def legacy_lookup_key_def)

lemma insertRow_succeeds:
  assumes rows: "webauthn_devices db = Some rows"
    and ids: "\<forall>row\<in>set rows. row_id row < webauthn_devices_id_seq db"
    and r: "complete r"
    and kid: "\<forall>row\<in>set rows. legacy_kid r \<noteq> Some (row_kid row)"
    and lookup: "\<forall>row\<in>set rows. legacy_lookup_key r
                   \<noteq> (Some (row_username row), Some (row_description row))"
  shows "\<exists>row. carried r row \<and> row_id row = webauthn_devices_id_seq db
           \<and> insertRow r db = Inr (db\<lparr>webauthn_devices_id_seq := webauthn_devices_id_seq db + 1,
                                      webauthn_devices := Some (rows @ [row])\<rparr>)"
proof -
  from newRow_complete [OF r] obtain row where
    row: "newRow (webauthn_devices_id_seq db) r = Inr row"
    by blast
  from newRow_carried [OF row] have c: "carried r row" "row_id row = webauthn_devices_id_seq db"
    by simp_all
  from c(2) ids have "row_id row \<notin> set (map row_id rows)"
    by auto
  moreover from carried_keys [OF c(1)] kid have "row_kid row \<notin> set (map row_kid rows)"
    by auto
  moreover from carried_keys [OF c(1)] lookup have "lookup_key row \<notin> set (map lookup_key rows)"
    by (auto simp: lookup_key_def)
  ultimately have "insertRow r db
      = Inr (db\<lparr>webauthn_devices_id_seq := webauthn_devices_id_seq db + 1,
                webauthn_devices := Some (rows @ [row])\<rparr>)"
    using rows row by (simp add: insertRow_def Let_def andThen_def)
  with c show ?thesis
    by blast
qed

lemma insertRows_succeeds:
  assumes "webauthn_devices db = Some rows"
    and "\<forall>row\<in>set rows. row_id row < webauthn_devices_id_seq db"
    and "\<forall>r\<in>set rs. complete r"
    and "distinct (map legacy_kid rs)"
    and "distinct (map legacy_lookup_key rs)"
    and "\<forall>r\<in>set rs. \<forall>row\<in>set rows. legacy_kid r \<noteq> Some (row_kid row)"
    and "\<forall>r\<in>set rs. \<forall>row\<in>set rows. legacy_lookup_key r
            \<noteq> (Some (row_username row), Some (row_description row))"
  shows "\<exists>db'. insertRows rs db = Inr db'"
  using assms
proof (induction rs arbitrary: db rows)
  case Nil
  then show ?case by simp
next
  case (Cons r rs)
  from Cons.prems have
    "\<exists>row. carried r row \<and> row_id row = webauthn_devices_id_seq db
       \<and> insertRow r db = Inr (db\<lparr>webauthn_devices_id_seq := webauthn_devices_id_seq db + 1,
                                  webauthn_devices := Some (rows @ [row])\<rparr>)"
    by (intro insertRow_succeeds) auto
  then obtain row where row: "carried r row" "row_id row = webauthn_devices_id_seq db"
    and one: "insertRow r db = Inr (db\<lparr>webauthn_devices_id_seq := webauthn_devices_id_seq db + 1,
                                  webauthn_devices := Some (rows @ [row])\<rparr>)"
    by blast
  let ?db1 = "db\<lparr>webauthn_devices_id_seq := webauthn_devices_id_seq db + 1,
                 webauthn_devices := Some (rows @ [row])\<rparr>"
  have "\<exists>db'. insertRows rs ?db1 = Inr db'"
  proof (rule Cons.IH [of ?db1 "rows @ [row]"])
    show "webauthn_devices ?db1 = Some (rows @ [row])"
      by simp
    show "\<forall>row\<in>set (rows @ [row]). row_id row < webauthn_devices_id_seq ?db1"
      using Cons.prems(2) row(2) by fastforce
    show "\<forall>r\<in>set rs. complete r" "distinct (map legacy_kid rs)"
      "distinct (map legacy_lookup_key rs)"
      using Cons.prems by simp_all
    show "\<forall>r\<in>set rs. \<forall>row\<in>set (rows @ [row]). legacy_kid r \<noteq> Some (row_kid row)"
    proof (intro ballI)
      fix r' row'
      assume r': "r' \<in> set rs" and row': "row' \<in> set (rows @ [row])"
      from Cons.prems(4) r' have "legacy_kid r' \<noteq> legacy_kid r"
        by (auto simp: image_iff)
      with carried_keys [OF row(1)] Cons.prems(6) r' row'
      show "legacy_kid r' \<noteq> Some (row_kid row')"
        by auto
    qed
    show "\<forall>r\<in>set rs. \<forall>row\<in>set (rows @ [row]). legacy_lookup_key r
            \<noteq> (Some (row_username row), Some (row_description row))"
    proof (intro ballI)
      fix r' row'
      assume r': "r' \<in> set rs" and row': "row' \<in> set (rows @ [row])"
      from Cons.prems(5) r' have "legacy_lookup_key r' \<noteq> legacy_lookup_key r"
        by (auto simp: image_iff)
      with carried_keys [OF row(1)] Cons.prems(7) r' row'
      show "legacy_lookup_key r' \<noteq> (Some (row_username row'), Some (row_description row'))"
        by auto
    qed
  qed
  with one show ?case
    by (simp add: andThen_def)
qed

lemma migration_succeeds:
  assumes "webauthn_devices db = None"
    and "webauthn_credentials db = Some credentials"
    and "''webauthn_devices_kid_key'' \<notin> set (indexes db)"
    and "''webauthn_devices_lookup_key'' \<notin> set (indexes db)"
    and "\<forall>r\<in>set (filter (\<lambda>r. legacy r = Some True) credentials). complete r"
    and "distinct (map legacy_kid (filter (\<lambda>r. legacy r = Some True) credentials))"
    and "distinct (map legacy_lookup_key (filter (\<lambda>r. legacy r = Some True) credentials))"
  shows "\<exists>db'. migration db = Inr db'"
proof -
  let ?db2 = "db\<lparr>webauthn_devices := Some [], webauthn_devices_id_seq := 1,
      indexes := ''webauthn_devices_lookup_key'' # ''webauthn_devices_kid_key'' # indexes db\<rparr>"
  have "\<exists>db3. insertRows (filter (\<lambda>r. legacy r = Some True) credentials) ?db2 = Inr db3"
    using assms(5-7) by (intro insertRows_succeeds [of ?db2 "[]"]) simp_all
  then obtain db3 where
    "insertRows (filter (\<lambda>r. legacy r = Some True) credentials) ?db2 = Inr db3"
    by blast
  with assms(1-4) show ?thesis
    by (simp add: migration_def createTableIfNotExists_def andThen_def createUniqueIndex_def
        insertSelect_def dropCredentialsIfExists_def dropUsersIfExists_def)
qed

end
